theory Spec2Isabelle
  imports Complex_Main "HOL-Library.AList" "HOL-Library.Multiset"
begin

section \<open>JavaScript values, JSON text and the browser's local storage\<close>

text \<open>
  The values the front end handles. Numbers are integers here (sizes, counts, clock
  readings); \<open>NaN\<close> is kept apart. A \<^verbatim>\<open>Date\<close> object is given by the string its
  \<^verbatim>\<open>toISOString()\<close> returns, \<open>None\<close> for an invalid date. An object is an association
  list from property name to value, in insertion order.
\<close>

datatype jsval =
    Undefined
  | Null
  | Bool bool
  | Num int
  | NaN
  | Str string
  | Arr "jsval list"
  | Obj "(string \<times> jsval) list"
  | DateV "string option"

text \<open>An exception: the name of its class and its \<^verbatim>\<open>message\<close>.\<close>

datatype js_error = JSError (err_name: string) (message: string)

text \<open>JavaScript truthiness, as used by \<^verbatim>\<open>if (x)\<close>, \<^verbatim>\<open>!x\<close>, \<^verbatim>\<open>x && y\<close>, \<^verbatim>\<open>x || y\<close>, \<^verbatim>\<open>x ? a : b\<close>.\<close>

fun truthy :: "jsval \<Rightarrow> bool" where
  "truthy Undefined = False"
| "truthy Null = False"
| "truthy (Bool b) = b"
| "truthy (Num n) = (n \<noteq> 0)"
| "truthy NaN = False"
| "truthy (Str s) = (s \<noteq> [])"
| "truthy (Arr xs) = True"
| "truthy (Obj kvs) = True"
| "truthy (DateV d) = True"

text \<open>
  Reading a property \<^verbatim>\<open>v.k\<close>. On \<^verbatim>\<open>null\<close> and \<^verbatim>\<open>undefined\<close> the read throws a
  TypeError (\<open>None\<close>); a property an object does not have reads as \<^verbatim>\<open>undefined\<close>. The
  names this program reads (\<^verbatim>\<open>status\<close>, \<^verbatim>\<open>id\<close>, \<^verbatim>\<open>file\<close>, \<^verbatim>\<open>timestamp\<close>,
  \<^verbatim>\<open>detail\<close>, \<dots>) are not built-in properties of strings, numbers, arrays or dates, so they
  read as \<^verbatim>\<open>undefined\<close> there.
\<close>

fun get_prop :: "jsval \<Rightarrow> string \<Rightarrow> jsval option" where
  "get_prop Undefined k = None"
| "get_prop Null k = None"
| "get_prop (Obj kvs) k = Some (case map_of kvs k of None \<Rightarrow> Undefined | Some v \<Rightarrow> v)"
| "get_prop v k = Some Undefined"

text \<open>
  Assigning a property of an object, \<^verbatim>\<open>data.k = v\<close>: an existing property keeps its
  place, a new one is added last.
\<close>

fun set_prop :: "jsval \<Rightarrow> string \<Rightarrow> jsval \<Rightarrow> jsval" where
  "set_prop (Obj kvs) k v = Obj (AList.update k v kvs)"
| "set_prop w k v = w"

text \<open>
  What \<^verbatim>\<open>JSON.parse(JSON.stringify(v))\<close> makes of a value: \<^verbatim>\<open>undefined\<close> has no JSON
  text (\<open>None\<close>); inside an array it becomes \<^verbatim>\<open>null\<close>, and a property holding it is left
  out; \<^verbatim>\<open>NaN\<close> and an invalid date become \<^verbatim>\<open>null\<close>; a date becomes its ISO string.
\<close>

fun to_json :: "jsval \<Rightarrow> jsval option" where
  "to_json Undefined = None"
| "to_json Null = Some Null"
| "to_json (Bool b) = Some (Bool b)"
| "to_json (Num n) = Some (Num n)"
| "to_json NaN = Some Null"
| "to_json (Str s) = Some (Str s)"
| "to_json (Arr xs) =
     Some (Arr (map (\<lambda>x. case to_json x of None \<Rightarrow> Null | Some j \<Rightarrow> j) xs))"
| "to_json (Obj kvs) =
     Some (Obj (concat (map (\<lambda>(k, v). case to_json v of None \<Rightarrow> [] | Some j \<Rightarrow> [(k, j)]) kvs)))"
| "to_json (DateV None) = Some Null"
| "to_json (DateV (Some s)) = Some (Str s)"

text \<open>The values that JSON can carry: the ones \<^verbatim>\<open>JSON.parse\<close> returns.\<close>

fun is_json :: "jsval \<Rightarrow> bool" where
  "is_json Undefined = False"
| "is_json NaN = False"
| "is_json (DateV d) = False"
| "is_json (Arr xs) = list_all is_json xs"
| "is_json (Obj kvs) = list_all (\<lambda>(k, v). is_json v) kvs"
| "is_json v = True"

text \<open>
  A string, as far as this program looks at it. The strings kept in local storage are
  read back through \<^verbatim>\<open>JSON.parse\<close> (or tested for emptiness), so a string that is JSON
  text is given by the value it denotes, and any other string by its characters.
  \<open>JsonText j\<close> is only formed from a JSON value \<open>j\<close>; JSON text is never empty.
\<close>

datatype js_text = JsonText jsval | RawText string

definition JSON_stringify :: "jsval \<Rightarrow> js_text option" where
  "JSON_stringify v = map_option JsonText (to_json v)"

definition JSON_parse :: "js_text \<Rightarrow> js_error + jsval" where
  "JSON_parse t =
     (case t of JsonText j \<Rightarrow> Inr j
      | RawText s \<Rightarrow> Inl (JSError ''SyntaxError'' ''Unexpected token in JSON''))"

fun text_truthy :: "js_text \<Rightarrow> bool" where
  "text_truthy (JsonText j) = True"
| "text_truthy (RawText s) = (s \<noteq> [])"

text \<open>
  \<^verbatim>\<open>localStorage.setItem(key, x)\<close> stores the string of \<open>x\<close>; for the \<^verbatim>\<open>undefined\<close> that
  \<^verbatim>\<open>JSON.stringify(undefined)\<close> returns this is the nine letters \<^verbatim>\<open>undefined\<close>.
\<close>

definition stored_string :: "js_text option \<Rightarrow> js_text" where
  "stored_string x = (case x of None \<Rightarrow> RawText ''undefined'' | Some t \<Rightarrow> t)"

text \<open>
  The browser's \<^verbatim>\<open>localStorage\<close>: the stored pairs in the order \<^verbatim>\<open>key(i)\<close> enumerates
  them (the order is left to the user agent; here a new key goes last and a rewritten key
  keeps its place), the user agent's quota policy (\<^verbatim>\<open>setItem\<close> throws
  QuotaExceededError when the policy refuses the write, given the present contents), and
  whether the user agent denies access to storage altogether (every operation then throws
  SecurityError).
\<close>

record local_storage =
  entries :: "(string \<times> js_text) list"
  quota_ok :: "(string \<times> js_text) list \<Rightarrow> string \<Rightarrow> js_text \<Rightarrow> bool"
  denied :: bool

definition SecurityError :: js_error where
  "SecurityError = JSError ''SecurityError'' ''The operation is insecure.''"

definition QuotaExceededError :: js_error where
  "QuotaExceededError = JSError ''QuotaExceededError'' ''The quota has been exceeded.''"

definition getItem :: "local_storage \<Rightarrow> string \<Rightarrow> js_error + js_text option" where
  "getItem ls key = (if denied ls then Inl SecurityError else Inr (map_of (entries ls) key))"

definition setItem :: "local_storage \<Rightarrow> string \<Rightarrow> js_text \<Rightarrow> js_error + local_storage" where
  "setItem ls key t =
     (if denied ls then Inl SecurityError
      else if \<not> quota_ok ls (entries ls) key t then Inl QuotaExceededError
      else Inr (ls\<lparr>entries := AList.update key t (entries ls)\<rparr>))"

definition removeItem :: "local_storage \<Rightarrow> string \<Rightarrow> js_error + local_storage" where
  "removeItem ls key =
     (if denied ls then Inl SecurityError
      else Inr (ls\<lparr>entries := AList.delete key (entries ls)\<rparr>))"


section \<open>Strings and numbers\<close>

text \<open>Decimal digits of a natural number and of an integer, as template literals print them.\<close>

fun show_nat :: "nat \<Rightarrow> string" where
  "show_nat n =
     (if n < 10 then [''0123456789'' ! n]
      else show_nat (n div 10) @ [''0123456789'' ! (n mod 10)])"

definition show_int :: "int \<Rightarrow> string" where
  "show_int i = (if i < 0 then CHR ''-'' # show_nat (nat (- i)) else show_nat (nat i))"

text \<open>\<^verbatim>\<open>s.startsWith(p)\<close>, \<^verbatim>\<open>s.includes(p)\<close>, \<^verbatim>\<open>s.substr(start, len)\<close>, \<^verbatim>\<open>xs.join(sep)\<close>.\<close>

definition startsWith :: "string \<Rightarrow> string \<Rightarrow> bool" where
  "startsWith s p \<longleftrightarrow> take (length p) s = p"

fun str_includes :: "string \<Rightarrow> string \<Rightarrow> bool" where
  "str_includes [] p = (p = [])"
| "str_includes (c # cs) p = (startsWith (c # cs) p \<or> str_includes cs p)"

definition substr :: "string \<Rightarrow> nat \<Rightarrow> nat \<Rightarrow> string" where
  "substr s start len = take len (drop start s)"

fun join :: "string list \<Rightarrow> string \<Rightarrow> string" where
  "join [] sep = []"
| "join [x] sep = x"
| "join (x # y # ys) sep = x @ sep @ join (y # ys) sep"

text \<open>
  \<^verbatim>\<open>Number.prototype.toString\<close> for a whole number. A number of JavaScript is a double:
  every whole number up to \<open>2\<^sup>5\<^sup>3\<close> is one and prints with all its digits (file sizes,
  counts and clock readings are of this kind; \<^verbatim>\<open>Date.now()\<close> never exceeds
  \<open>8.64 \<times> 10\<^sup>1\<^sup>5\<close>). A larger whole number stands for the double nearest to it
  (\<open>nearest_double\<close>: 53 significant bits, ties to the even significand), as a numeric
  literal does. A double beyond \<open>2\<^sup>5\<^sup>3\<close> prints the shortest run of digits that still
  denotes it, the one nearest to it when there are several, followed by zeros while the
  number has at most 21 digits and in exponent form beyond. \<open>rounds_to n c\<close> says that the
  decimal \<open>c\<close> reads back as the double \<open>n\<close> (round to nearest, ties to the even
  significand, the gap below a power of two being half the gap above); \<open>shortest\<close>
  tries one digit, then two, and so on; seventeen always suffice.
\<close>

fun bit_length :: "nat \<Rightarrow> nat" where
  "bit_length n = (if n = 0 then 0 else Suc (bit_length (n div 2)))"

definition nearest_double :: "nat \<Rightarrow> nat" where
  "nearest_double n =
     (let e = bit_length n - 53;
          m = n div 2 ^ e;
          r = n mod 2 ^ e
      in if 2 * r > 2 ^ e \<or> (2 * r = 2 ^ e \<and> odd m) then (m + 1) * 2 ^ e else m * 2 ^ e)"

definition in_gap :: "bool \<Rightarrow> nat \<Rightarrow> nat \<Rightarrow> bool" where
  "in_gap inclusive d g \<longleftrightarrow> (if inclusive then d \<le> g else d < g)"

definition rounds_to_at :: "nat \<Rightarrow> nat \<Rightarrow> nat \<Rightarrow> bool" where
  "rounds_to_at e n c \<longleftrightarrow>
     (if n \<le> c
      then in_gap (even (n div 2 ^ e)) (2 * (c - n)) (2 ^ e)
      else in_gap (even (n div 2 ^ e)) (4 * (n - c)) (if n = 2 ^ (e + 52) then 2 ^ e else 2 * 2 ^ e))"

definition rounds_to :: "nat \<Rightarrow> nat \<Rightarrow> bool" where
  "rounds_to n c \<longleftrightarrow> rounds_to_at (bit_length n - 53) n c"

definition nearest :: "nat \<Rightarrow> nat \<Rightarrow> nat \<Rightarrow> nat option" where
  "nearest n lo hi =
     (if rounds_to n lo \<and> rounds_to n hi then Some (if n - lo \<le> hi - n then lo else hi)
      else if rounds_to n lo then Some lo
      else if rounds_to n hi then Some hi
      else None)"

definition candidate :: "nat \<Rightarrow> nat \<Rightarrow> nat option" where
  "candidate n p = nearest n ((n div p) * p) ((n div p) * p + p)"

fun shortest :: "nat list \<Rightarrow> nat \<Rightarrow> nat \<Rightarrow> nat" where
  "shortest [] digits n = n"
| "shortest (k # ks) digits n =
     (case candidate n (10 ^ (digits - k)) of
        Some c \<Rightarrow> c
      | None \<Rightarrow> shortest ks digits n)"

definition exponent_form :: "string \<Rightarrow> nat \<Rightarrow> string" where
  "exponent_form sig x =
     (if length sig = 1 then sig else hd sig # CHR ''.'' # tl sig) @ ''e+'' @ show_nat x"

definition number_format :: "string \<Rightarrow> string" where
  "number_format ds =
     (if length ds \<le> 21 then ds
      else exponent_form (rev (dropWhile (\<lambda>c. c = CHR ''0'') (rev ds))) (length ds - 1))"

definition number_digits :: "nat \<Rightarrow> string" where
  "number_digits n =
     number_format (show_nat (shortest [1, 2, 3, 4, 5, 6, 7, 8, 9, 10, 11, 12, 13, 14, 15, 16, 17]
                                (length (show_nat n)) n))"

definition number_string :: "int \<Rightarrow> string" where
  "number_string n =
     (if \<bar>n\<bar> \<le> 9007199254740992 then show_int n
      else (if n < 0 then ''-'' else []) @ number_digits (nearest_double (nat \<bar>n\<bar>)))"

text \<open>
  \<^verbatim>\<open>String(v)\<close>, the conversion behind \<^verbatim>\<open>new Error(v)\<close>, template literals,
  \<^verbatim>\<open>FormData.append\<close> and storage keys. An array prints its elements separated by
  commas, \<^verbatim>\<open>null\<close> and \<^verbatim>\<open>undefined\<close> elements as nothing. The platform prints a
  valid date in local time, which the model does not carry: the ISO string stands in for it
  (the values this program converts are strings or come out of \<^verbatim>\<open>JSON.parse\<close>, which
  never returns a date). An object prints as \<^verbatim>\<open>[object Object]\<close>, as every object that
  does not replace \<^verbatim>\<open>toString\<close> does.
\<close>

fun js_String :: "jsval \<Rightarrow> string" where
  "js_String Undefined = ''undefined''"
| "js_String Null = ''null''"
| "js_String (Bool b) = (if b then ''true'' else ''false'')"
| "js_String (Num n) = number_string n"
| "js_String NaN = ''NaN''"
| "js_String (Str s) = s"
| "js_String (Arr xs) =
     join (map (\<lambda>x. if x = Null \<or> x = Undefined then [] else js_String x) xs) '',''"
| "js_String (Obj kvs) = ''[object Object]''"
| "js_String (DateV None) = ''Invalid Date''"
| "js_String (DateV (Some s)) = s"

section \<open>Files, requests and the state of the page\<close>

text \<open>
  A \<^verbatim>\<open>File\<close>: its name, the size the browser reports, its MIME type, its modification
  time and its content. A \<^verbatim>\<open>Blob\<close> is a size and a content.
\<close>

record js_file =
  file_name :: string
  file_size :: nat
  file_type :: string
  file_lastModified :: int
  file_content :: string

record blob =
  blob_size :: nat
  blob_content :: string

text \<open>
  A request handed to \<^verbatim>\<open>fetch\<close>. A header value is a plain string or
  \<^verbatim>\<open>`Bearer ${token}`\<close> for a stored token; a body is absent, a string (JSON text), or
  multipart form data (\<^verbatim>\<open>FormData\<close>), whose parts are strings and files.
\<close>

datatype header_value = HStr string | HBearer js_text

datatype form_part = StringPart string | FilePart js_file

datatype req_body = NoBody | TextBody js_text | FormBody "(string \<times> form_part) list"

record request =
  req_url :: string
  req_method :: "string option"
  req_headers :: "(string \<times> header_value) list"
  req_body :: req_body

text \<open>
  A response: its status, its \<^verbatim>\<open>content-type\<close> header if it has one, and its body.
  \<^verbatim>\<open>fetch\<close> either rejects (no connection) or resolves with a response.
\<close>

record response =
  status :: nat
  content_type :: "string option"
  resp_body :: js_text

datatype fetch_outcome = Rejected js_error | Response response

definition ok :: "response \<Rightarrow> bool" where
  "ok r \<longleftrightarrow> 200 \<le> status r \<and> status r \<le> 299"

text \<open>
  The page and its surroundings. State: the browser's local storage, the React state
  \<^verbatim>\<open>storage\<close> of useOfflineStorage, the React states \<^verbatim>\<open>isLoading\<close> and \<^verbatim>\<open>error\<close> of
  useApiClient, the requests handed to \<^verbatim>\<open>fetch\<close> so far, and the messages shown with
  \<^verbatim>\<open>alert\<close>. Surroundings, which the program does not control: the network (what
  \<^verbatim>\<open>fetch\<close> answers to a request, given the requests before it), the configured
  \<^verbatim>\<open>API_BASE_URL\<close>, the time value of \<^verbatim>\<open>new Date(x)\<close> (\<open>None\<close> for an invalid date),
  what \<^verbatim>\<open>FileReader.readAsDataURL\<close> produces for a file (\<open>None\<close> when the read fails and
  \<^verbatim>\<open>onload\<close> never fires), and what \<^verbatim>\<open>fetch(x)\<close> followed by \<^verbatim>\<open>.blob()\<close> yields for a
  stored data URL, the constructor \<^verbatim>\<open>new File([blob], name, { type, lastModified })\<close>,
  and the global functions \<^verbatim>\<open>parseInt\<close> and \<^verbatim>\<open>parseFloat\<close>. Handlers run one after the other; what another handler does while one is
  waiting on \<^verbatim>\<open>await\<close> is outside the model.
\<close>

record world =
  localStorage :: local_storage
  storage :: "(string \<times> jsval) list"
  isLoading :: bool
  error :: "string option"
  sent :: "request list"
  alerts :: "string list"
  network :: "request list \<Rightarrow> request \<Rightarrow> fetch_outcome"
  API_BASE_URL :: string
  date_value :: "jsval \<Rightarrow> int option"
  readAsDataURL :: "js_file \<Rightarrow> string option"
  fetch_blob :: "jsval \<Rightarrow> js_error + blob"
  new_File :: "blob \<Rightarrow> jsval \<Rightarrow> jsval \<Rightarrow> jsval \<Rightarrow> js_file"
  parseInt :: "jsval \<Rightarrow> jsval"
  parseFloat :: "jsval \<Rightarrow> jsval"

definition fetch :: "world \<Rightarrow> request \<Rightarrow> fetch_outcome \<times> world" where
  "fetch w r = (network w (sent w) r, w\<lparr>sent := sent w @ [r]\<rparr>)"

definition alert :: "world \<Rightarrow> string \<Rightarrow> world" where
  "alert w msg = w\<lparr>alerts := alerts w @ [msg]\<rparr>"

section \<open>The offline-storage hook (useOfflineStorage)\<close>

text \<open>
  \<^verbatim>\<open>
  const loadFromStorage = useCallback((key) => {
    try {
      const data = localStorage.getItem(key);
      return data ? JSON.parse(data) : null;
    } catch (error) { console.error(...); return null; }
  }, []);
  \<close>
\<close>

definition loadFromStorage :: "local_storage \<Rightarrow> string \<Rightarrow> jsval" where
  "loadFromStorage ls key =
     (case getItem ls key of
        Inl e \<Rightarrow> Null
      | Inr None \<Rightarrow> Null
      | Inr (Some data) \<Rightarrow>
          if text_truthy data
          then (case JSON_parse data of Inl e \<Rightarrow> Null | Inr v \<Rightarrow> v)
          else Null)"

text \<open>
  \<^verbatim>\<open>
  const saveToStorage = useCallback((key, data) => {
    try {
      if (data === null) { localStorage.removeItem(key); }
      else { localStorage.setItem(key, JSON.stringify(data)); }
      return true;
    } catch (error) { console.error(...); return false; }
  }, []);
  \<close>
  The result is the returned flag and the storage afterwards.
\<close>

definition saveToStorage :: "local_storage \<Rightarrow> string \<Rightarrow> jsval \<Rightarrow> bool \<times> local_storage" where
  "saveToStorage ls key data =
     (if data = Null
      then (case removeItem ls key of Inl e \<Rightarrow> (False, ls) | Inr ls' \<Rightarrow> (True, ls'))
      else (case setItem ls key (stored_string (JSON_stringify data)) of
              Inl e \<Rightarrow> (False, ls) | Inr ls' \<Rightarrow> (True, ls')))"

text \<open>
  \<^verbatim>\<open>
  const saveOffline = useCallback(async (key, data) => {
    const success = saveToStorage(key, data);
    if (success) { setStorage(prev => ({ ...prev, [key]: data })); }
    return success;
  }, [saveToStorage]);
  \<close>
\<close>

definition saveOffline :: "world \<Rightarrow> string \<Rightarrow> jsval \<Rightarrow> bool \<times> world" where
  "saveOffline w key data =
     (let (success, ls') = saveToStorage (localStorage w) key data
      in if success
         then (success, w\<lparr>localStorage := ls', storage := AList.update key data (storage w)\<rparr>)
         else (success, w\<lparr>localStorage := ls'\<rparr>))"

text \<open>
  \<^verbatim>\<open>
  const syncOffline = useCallback(async (key) => {
    const data = loadFromStorage(key);
    if (data) { setStorage(prev => ({ ...prev, [key]: data })); }
    return data;
  }, [loadFromStorage]);
  \<close>
\<close>

definition syncOffline :: "world \<Rightarrow> string \<Rightarrow> jsval \<times> world" where
  "syncOffline w key =
     (let data = loadFromStorage (localStorage w) key
      in if truthy data
         then (data, w\<lparr>storage := AList.update key data (storage w)\<rparr>)
         else (data, w))"


subsection \<open>The file queue\<close>

text \<open>
  \<^verbatim>\<open>
  const addFileToQueue = useCallback(async (file, projectId, description = '') => {
    const queueKey = `file_queue_${Date.now()}_${Math.random().toString(36).substr(2, 9)}`;
    const fileData = {
      id: queueKey,
      file: { name: file.name, size: file.size, type: file.type, lastModified: file.lastModified,
              content: await new Promise((resolve) => {
                const reader = new FileReader();
                reader.onload = () => resolve(reader.result);
                reader.readAsDataURL(file);
              }) },
      projectId, description,
      timestamp: new Date().toISOString(),
      status: 'pending'
    };
    const success = saveToStorage(queueKey, fileData);
    if (success) { setStorage(prev => ({ ...prev, [queueKey]: fileData })); }
    return success;
  }, [saveToStorage]);
  \<close>
  The clock and the random source are inputs: \<open>now\<close> is \<^verbatim>\<open>Date.now()\<close>, \<open>rnd\<close> is the
  string \<^verbatim>\<open>Math.random().toString(36)\<close>, and \<open>stamp\<close> is \<^verbatim>\<open>new Date().toISOString()\<close>.
  The promise around the reader resolves only from \<^verbatim>\<open>onload\<close>: when the read fails the
  call never returns, which is the result \<open>None\<close>.
\<close>

definition queueKey :: "nat \<Rightarrow> string \<Rightarrow> string" where
  "queueKey now rnd = ''file_queue_'' @ show_nat now @ ''_'' @ substr rnd 2 9"

definition fileData :: "string \<Rightarrow> js_file \<Rightarrow> string \<Rightarrow> jsval \<Rightarrow> jsval \<Rightarrow> string \<Rightarrow> jsval" where
  "fileData key f content projectId description stamp =
     Obj [(''id'', Str key),
          (''file'', Obj [(''name'', Str (file_name f)),
                         (''size'', Num (int (file_size f))),
                         (''type'', Str (file_type f)),
                         (''lastModified'', Num (file_lastModified f)),
                         (''content'', Str content)]),
          (''projectId'', projectId),
          (''description'', description),
          (''timestamp'', Str stamp),
          (''status'', Str ''pending'')]"

definition addFileToQueue ::
  "world \<Rightarrow> nat \<Rightarrow> string \<Rightarrow> string \<Rightarrow> js_file \<Rightarrow> jsval \<Rightarrow> jsval \<Rightarrow> (bool \<times> world) option" where
  "addFileToQueue w now rnd stamp f projectId description =
     (case readAsDataURL w f of
        None \<Rightarrow> None
      | Some content \<Rightarrow>
          let key = queueKey now rnd;
              data = fileData key f content projectId
                       (if description = Undefined then Str [] else description) stamp;
              (success, ls') = saveToStorage (localStorage w) key data
          in if success
             then Some (success, w\<lparr>localStorage := ls', storage := AList.update key data (storage w)\<rparr>)
             else Some (success, w\<lparr>localStorage := ls'\<rparr>))"









text \<open>
  \<^verbatim>\<open>
  const updateFileQueueStatus = useCallback((queueId, status, error = null) => {
    const data = loadFromStorage(queueId);
    if (data) {
      data.status = status;
      if (error) { data.error = error; }
      saveToStorage(queueId, data);
      setStorage(prev => ({ ...prev, [queueId]: data }));
    }
  }, [loadFromStorage, saveToStorage]);
  \<close>
  The error argument is a message or absent (\<^verbatim>\<open>null\<close>).
\<close>

definition TypeError :: "string \<Rightarrow> js_error" where
  "TypeError msg = JSError ''TypeError'' msg"


section \<open>The API client hook (useApiClient)\<close>

text \<open>
  \<^verbatim>\<open>const getAuthToken = useCallback(() => { return localStorage.getItem('auth_token'); }, []);\<close>
\<close>

definition getAuthToken :: "world \<Rightarrow> js_error + js_text option" where
  "getAuthToken w = getItem (localStorage w) ''auth_token''"

text \<open>The spread \<^verbatim>\<open>...(token && { Authorization: `Bearer ${token}` })\<close>.\<close>

definition auth_headers :: "js_text option \<Rightarrow> (string \<times> header_value) list" where
  "auth_headers token =
     (case token of
        None \<Rightarrow> []
      | Some t \<Rightarrow> if text_truthy t then [(''Authorization'', HBearer t)] else [])"

text \<open>Spreading one object over another: later properties replace earlier ones.\<close>

definition spread :: "('k \<times> 'v) list \<Rightarrow> ('k \<times> 'v) list \<Rightarrow> ('k \<times> 'v) list" where
  "spread base over = foldl (\<lambda>al (k, v). AList.update k v al) base over"

text \<open>The options a caller passes to \<^verbatim>\<open>makeRequest\<close>: method, body and headers, each optional.\<close>

record request_options =
  opt_method :: "string option"
  opt_body :: "js_text option"
  opt_headers :: "(string \<times> header_value) list"

datatype api_result = JsonResult jsval | RawResult response

definition Error :: "string \<Rightarrow> js_error" where
  "Error msg = JSError ''Error'' msg"

text \<open>
  \<^verbatim>\<open>
  const makeRequest = useCallback(async (url, options = {}) => {
    setIsLoading(true);
    setError(null);
    try {
      const token = getAuthToken();
      const config = { ...options,
        headers: { 'Content-Type': 'application/json',
                   ...(token && { Authorization: `Bearer ${token}` }),
                   ...options.headers } };
      const response = await fetch(`${API_BASE_URL}${url}`, config);
      if (!response.ok) {
        if (response.status === 401) {
          localStorage.removeItem('auth_token');
          throw new Error('Authentication required. Please log in again.');
        } else if (response.status === 403) {
          throw new Error('Access denied. You do not have permission to perform this action.');
        } else if (response.status >= 500) {
          throw new Error('Server error. Please try again later.');
        } else {
          const errorData = await response.json().catch(() => ({}));
          throw new Error(errorData.detail || `Request failed with status ${response.status}`);
        }
      }
      const contentType = response.headers.get('content-type');
      if (contentType && contentType.includes('application/json')) { return await response.json(); }
      else { return response; }
    } catch (err) {
      const errorMessage = err.message || 'An unexpected error occurred';
      setError(errorMessage);
      throw err;
    } finally { setIsLoading(false); }
  }, [API_BASE_URL, getAuthToken]);
  \<close>
  \<open>request_config\<close> is the request built from \<^verbatim>\<open>url\<close> and \<^verbatim>\<open>config\<close>,
  \<open>makeRequest_try\<close> is the body of the \<^verbatim>\<open>try\<close>, and \<open>makeRequest\<close> adds the state
  changes before it, the \<^verbatim>\<open>catch\<close> and the \<^verbatim>\<open>finally\<close>.
\<close>

definition error_detail :: "response \<Rightarrow> string \<Rightarrow> js_error" where
  "error_detail r fallback =
     (let errorData = (case JSON_parse (resp_body r) of Inl e \<Rightarrow> Obj [] | Inr v \<Rightarrow> v)
      in case get_prop errorData ''detail'' of
           None \<Rightarrow> TypeError ''Cannot read properties of null (reading detail)''
         | Some d \<Rightarrow> Error (if truthy d then js_String d else fallback))"

definition request_config :: "world \<Rightarrow> js_text option \<Rightarrow> string \<Rightarrow> request_options \<Rightarrow> request" where
  "request_config w token url options =
     \<lparr>req_url = API_BASE_URL w @ url,
      req_method = opt_method options,
      req_headers = spread (spread [(''Content-Type'', HStr ''application/json'')]
                              (auth_headers token)) (opt_headers options),
      req_body = (case opt_body options of None \<Rightarrow> NoBody | Some b \<Rightarrow> TextBody b)\<rparr>"

definition makeRequest_try :: "world \<Rightarrow> string \<Rightarrow> request_options \<Rightarrow> (js_error + api_result) \<times> world" where
  "makeRequest_try w url options =
     (case getAuthToken w of
        Inl e \<Rightarrow> (Inl e, w)
      | Inr token \<Rightarrow>
          let (outcome, w1) = fetch w (request_config w token url options)
          in case outcome of
               Rejected e \<Rightarrow> (Inl e, w1)
             | Response r \<Rightarrow>
                 if \<not> ok r then
                   if status r = 401 then
                     (case removeItem (localStorage w1) ''auth_token'' of
                        Inl e \<Rightarrow> (Inl e, w1)
                      | Inr ls' \<Rightarrow>
                          (Inl (Error ''Authentication required. Please log in again.''),
                           w1\<lparr>localStorage := ls'\<rparr>))
                   else if status r = 403 then
                     (Inl (Error ''Access denied. You do not have permission to perform this action.''), w1)
                   else if status r \<ge> 500 then
                     (Inl (Error ''Server error. Please try again later.''), w1)
                   else
                     (Inl (error_detail r (''Request failed with status '' @ show_nat (status r))), w1)
                 else
                   (case content_type r of
                      None \<Rightarrow> (Inr (RawResult r), w1)
                    | Some contentType \<Rightarrow>
                        if contentType \<noteq> [] \<and> str_includes contentType ''application/json''
                        then (case JSON_parse (resp_body r) of
                                Inl e \<Rightarrow> (Inl e, w1)
                              | Inr v \<Rightarrow> (Inr (JsonResult v), w1))
                        else (Inr (RawResult r), w1)))"

definition makeRequest :: "world \<Rightarrow> string \<Rightarrow> request_options \<Rightarrow> (js_error + api_result) \<times> world" where
  "makeRequest w url options =
     (let (res, w1) = makeRequest_try (w\<lparr>isLoading := True, error := None\<rparr>) url options
      in case res of
           Inl err \<Rightarrow>
             (Inl err,
              w1\<lparr>error := Some (if message err \<noteq> [] then message err
                                 else ''An unexpected error occurred''),
                  isLoading := False\<rparr>)
         | Inr v \<Rightarrow> (Inr v, w1\<lparr>isLoading := False\<rparr>))"

text \<open>
  \<^verbatim>\<open>formData.pilot_start_date?.toISOString().split('T')[0]\<close>: nothing for \<^verbatim>\<open>null\<close> and
  \<^verbatim>\<open>undefined\<close>; for a date the part of its ISO string before the \<^verbatim>\<open>T\<close>; an invalid
  date throws a RangeError; any other value has no \<^verbatim>\<open>toISOString\<close> and the call throws a
  TypeError.
\<close>

fun iso_date_part :: "jsval \<Rightarrow> js_error + jsval" where
  "iso_date_part Undefined = Inr Undefined"
| "iso_date_part Null = Inr Undefined"
| "iso_date_part (DateV (Some s)) = Inr (Str (takeWhile (\<lambda>c. c \<noteq> CHR ''T'') s))"
| "iso_date_part (DateV None) = Inl (JSError ''RangeError'' ''Invalid time value'')"
| "iso_date_part v = Inl (TypeError ''toISOString is not a function'')"

text \<open>Reading \<^verbatim>\<open>formData.k\<close> of the form's data object.\<close>

definition field :: "jsval \<Rightarrow> string \<Rightarrow> jsval" where
  "field formData k = (case get_prop formData k of None \<Rightarrow> Undefined | Some v \<Rightarrow> v)"

text \<open>
  \<^verbatim>\<open>
  const submitClientIntake = useCallback(async (formData) => {
    const organizationData = { name: formData.school_name, organization_type: 'educational',
                               email: formData.email };
    const clientData = {
      organization: organizationData,
      school_name: formData.school_name, address: formData.address,
      contact_person: formData.contact_person, role_position: formData.role_position,
      phone_whatsapp: formData.phone_whatsapp, email: formData.email,
      current_website: formData.current_website,
      number_of_students: formData.number_of_students ? parseInt(formData.number_of_students) : null,
      number_of_staff: formData.number_of_staff ? parseInt(formData.number_of_staff) : null,
      project_type: formData.project_type, project_purpose: formData.project_purpose,
      pilot_scope_features: formData.pilot_scope_features,
      pilot_start_date: formData.pilot_start_date?.toISOString().split('T')[0],
      pilot_end_date: formData.pilot_end_date?.toISOString().split('T')[0],
      timeline_preference: formData.timeline_preference,
      design_preferences: formData.design_preferences, logo_colors: formData.logo_colors,
      content_availability: formData.content_availability,
      maintenance_plan: formData.maintenance_plan,
      token_commitment_fee: formData.token_commitment_fee ? parseFloat(formData.token_commitment_fee) : null,
      additional_notes: formData.additional_notes, acknowledgment: formData.acknowledgment,
    };
    return await makeRequest('/clients/', { method: 'POST', body: JSON.stringify(clientData) });
  }, [makeRequest]);
  \<close>
\<close>

definition organizationData :: "jsval \<Rightarrow> jsval" where
  "organizationData formData =
     Obj [(''name'', field formData ''school_name''),
          (''organization_type'', Str ''educational''),
          (''email'', field formData ''email'')]"

definition clientData :: "world \<Rightarrow> jsval \<Rightarrow> jsval \<Rightarrow> jsval \<Rightarrow> jsval" where
  "clientData w formData start_date end_date =
     Obj [(''organization'', organizationData formData),
          (''school_name'', field formData ''school_name''),
          (''address'', field formData ''address''),
          (''contact_person'', field formData ''contact_person''),
          (''role_position'', field formData ''role_position''),
          (''phone_whatsapp'', field formData ''phone_whatsapp''),
          (''email'', field formData ''email''),
          (''current_website'', field formData ''current_website''),
          (''number_of_students'',
             if truthy (field formData ''number_of_students'')
             then parseInt w (field formData ''number_of_students'') else Null),
          (''number_of_staff'',
             if truthy (field formData ''number_of_staff'')
             then parseInt w (field formData ''number_of_staff'') else Null),
          (''project_type'', field formData ''project_type''),
          (''project_purpose'', field formData ''project_purpose''),
          (''pilot_scope_features'', field formData ''pilot_scope_features''),
          (''pilot_start_date'', start_date),
          (''pilot_end_date'', end_date),
          (''timeline_preference'', field formData ''timeline_preference''),
          (''design_preferences'', field formData ''design_preferences''),
          (''logo_colors'', field formData ''logo_colors''),
          (''content_availability'', field formData ''content_availability''),
          (''maintenance_plan'', field formData ''maintenance_plan''),
          (''token_commitment_fee'',
             if truthy (field formData ''token_commitment_fee'')
             then parseFloat w (field formData ''token_commitment_fee'') else Null),
          (''additional_notes'', field formData ''additional_notes''),
          (''acknowledgment'', field formData ''acknowledgment'')]"

definition submitClientIntake :: "world \<Rightarrow> jsval \<Rightarrow> (js_error + api_result) \<times> world" where
  "submitClientIntake w formData =
     (case iso_date_part (field formData ''pilot_start_date'') of
        Inl e \<Rightarrow> (Inl e, w)
      | Inr start_date \<Rightarrow>
          (case iso_date_part (field formData ''pilot_end_date'') of
             Inl e \<Rightarrow> (Inl e, w)
           | Inr end_date \<Rightarrow>
               makeRequest w ''/clients/''
                 \<lparr>opt_method = Some ''POST'',
                  opt_body = JSON_stringify (clientData w formData start_date end_date),
                  opt_headers = []\<rparr>))"





section \<open>The file uploader (FileUploader)\<close>













section \<open>The client intake form (ClientIntakeForm)\<close>

text \<open>
  \<^verbatim>\<open>
  const onSubmit = async (data) => {
    dispatch({ type: 'SET_FIELD', field: 'isSubmitting', value: true });
    try {
      const requiredFields = [ 'school_name', 'contact_person', 'email', 'project_type',
        'project_purpose', 'pilot_scope_features', 'timeline_preference' ];
      const missingFields = requiredFields.filter(field => {
        const value = data[field];
        return !value || (Array.isArray(value) && value.length === 0);
      });
      if (missingFields.length > 0) {
        throw new Error(`Please fill in all required fields: ${missingFields.join(', ')}`);
      }
      const response = await submitClientIntake(data);
      await saveOffline('client_intake_form', null);
      alert('Intake form submitted successfully!');
      reset();
      dispatch({ type: 'RESET_FORM', initialState: {} });
    } catch (error) {
      console.error('Form submission error:', error);
      await saveOffline('client_intake_form', data);
      alert(`Form submission failed: ${error.message}. Data saved offline for later sync.`);
    } finally {
      dispatch({ type: 'SET_FIELD', field: 'isSubmitting', value: false });
    }
  };
  \<close>
  \<^verbatim>\<open>reset()\<close> and the reducer's dispatches change the form's own fields and flags only;
  they are not part of the state kept here.
\<close>

definition requiredFields :: "string list" where
  "requiredFields =
     [''school_name'', ''contact_person'', ''email'', ''project_type'',
      ''project_purpose'', ''pilot_scope_features'', ''timeline_preference'']"

definition is_missing :: "jsval \<Rightarrow> bool" where
  "is_missing v \<longleftrightarrow> \<not> truthy v \<or> v = Arr []"

definition missingFields :: "jsval \<Rightarrow> string list" where
  "missingFields data = filter (\<lambda>k. is_missing (field data k)) requiredFields"

definition onSubmit_try :: "world \<Rightarrow> jsval \<Rightarrow> js_error option \<times> world" where
  "onSubmit_try w data =
     (if missingFields data \<noteq> []
      then (Some (Error (''Please fill in all required fields: '' @ join (missingFields data) '', '')), w)
      else (case submitClientIntake w data of
              (Inl e, w1) \<Rightarrow> (Some e, w1)
            | (Inr response, w1) \<Rightarrow>
                let (success, w2) = saveOffline w1 ''client_intake_form'' Null
                in (None, alert w2 ''Intake form submitted successfully!'')))"

definition onSubmit :: "world \<Rightarrow> jsval \<Rightarrow> world" where
  "onSubmit w data =
     (case onSubmit_try w data of
        (None, w1) \<Rightarrow> w1
      | (Some err, w1) \<Rightarrow>
          let (success, w2) = saveOffline w1 ''client_intake_form'' data
          in alert w2 (''Form submission failed: '' @ message err
                        @ ''. Data saved offline for later sync.''))"

section \<open>The change request form and the pilot handover form\<close>

text \<open>
  Both forms talk to the server through helpers that are imported but are not among the
  sources (\<^verbatim>\<open>apiCall\<close> of \<^verbatim>\<open>useApi\<close>; \<^verbatim>\<open>apiClient.post\<close>). A call is kept as what is
  passed to the helper: the URL, the method and the body. The helper's answer is an input:
  it resolves with a value or rejects with an error.
\<close>

record api_call =
  call_url :: string
  call_method :: string
  call_body :: "jsval option"

text \<open>
  What a form shows and remembers: the reducer's \<^verbatim>\<open>loading\<close>, \<^verbatim>\<open>error\<close> and
  \<^verbatim>\<open>success\<close> (for the handover form the React states \<^verbatim>\<open>isSubmitting\<close>, \<^verbatim>\<open>error\<close>,
  \<^verbatim>\<open>success\<close>), the calls made so far, and the file names offered for download.
\<close>

record form_state =
  fs_loading :: bool
  fs_error :: "string option"
  fs_success :: "string option"
  fs_calls :: "api_call list"
  fs_downloads :: "string list"

text \<open>
  The reducer of ChangeRequestForm:
  \<^verbatim>\<open>
  case 'SET_LOADING': return { ...state, loading: action.payload };
  case 'SET_ERROR':   return { ...state, error: action.payload, loading: false };
  case 'SET_SUCCESS': return { ...state, success: action.payload, loading: false, error: null };
  \<close>
\<close>

datatype form_action = SET_LOADING bool | SET_ERROR string | SET_SUCCESS string

fun formReducer :: "form_state \<Rightarrow> form_action \<Rightarrow> form_state" where
  "formReducer st (SET_LOADING payload) = st\<lparr>fs_loading := payload\<rparr>"
| "formReducer st (SET_ERROR payload) = st\<lparr>fs_error := Some payload, fs_loading := False\<rparr>"
| "formReducer st (SET_SUCCESS payload) =
     st\<lparr>fs_success := Some payload, fs_loading := False, fs_error := None\<rparr>"

text \<open>
  \<^verbatim>\<open>
  const handleSignatureSubmit = useCallback(async () => {
    if (!changeRequest?.id) return;
    const signatureType = user?.role?.codename === 'client_contact' ? 'client_representative' : 'provider_representative';
    const signatureKey = user?.role?.codename === 'client_contact' ? 'clientSignature' : 'providerSignature';
    if (!signatureData[signatureKey]) {
      dispatch({ type: 'SET_ERROR', payload: 'Please provide a signature.' });
      return;
    }
    try {
      dispatch({ type: 'SET_LOADING', payload: true });
      await apiCall(`/api/change-requests/${changeRequest.id}/sign_change_request/`, {
        method: 'POST',
        body: { signature_data: { name: user?.username || '', signature: signatureData[signatureKey],
                                  date: new Date().toISOString() } }
      });
      dispatch({ type: 'SET_SUCCESS', payload: 'Document signed successfully.' });
    } catch (error) {
      dispatch({ type: 'SET_ERROR', payload: error.message });
    }
  }, [changeRequest?.id, signatureData, user, apiCall]);
  \<close>
  \<open>stamp\<close> is \<^verbatim>\<open>new Date().toISOString()\<close>, and \<open>answer\<close> is what \<^verbatim>\<open>apiCall\<close> does with
  the call.
\<close>

definition signatureKey :: "jsval \<Rightarrow> string" where
  "signatureKey user =
     (if field (field user ''role'') ''codename'' = Str ''client_contact''
      then ''clientSignature'' else ''providerSignature'')"

definition sign_call :: "jsval \<Rightarrow> jsval \<Rightarrow> jsval \<Rightarrow> string \<Rightarrow> api_call" where
  "sign_call changeRequest user signatureData stamp =
     \<lparr>call_url = ''/api/change-requests/'' @ js_String (field changeRequest ''id'')
                   @ ''/sign_change_request/'',
      call_method = ''POST'',
      call_body = Some (Obj [(''signature_data'',
                     Obj [(''name'', if truthy (field user ''username'')
                                     then field user ''username'' else Str []),
                          (''signature'', field signatureData (signatureKey user)),
                          (''date'', Str stamp)])])\<rparr>"

definition handleSignatureSubmit ::
  "(api_call \<Rightarrow> js_error + jsval) \<Rightarrow> form_state \<Rightarrow> jsval \<Rightarrow> jsval \<Rightarrow> jsval \<Rightarrow> string \<Rightarrow> form_state" where
  "handleSignatureSubmit answer st changeRequest user signatureData stamp =
     (if \<not> truthy (field changeRequest ''id'') then st
      else if \<not> truthy (field signatureData (signatureKey user))
      then formReducer st (SET_ERROR ''Please provide a signature.'')
      else
        let st1 = formReducer st (SET_LOADING True);
            call = sign_call changeRequest user signatureData stamp;
            st2 = st1\<lparr>fs_calls := fs_calls st1 @ [call]\<rparr>
        in case answer call of
             Inl err \<Rightarrow> formReducer st2 (SET_ERROR (message err))
           | Inr v \<Rightarrow> formReducer st2 (SET_SUCCESS ''Document signed successfully.''))"

text \<open>
  The signature that \<^verbatim>\<open>handleSignatureSubmit\<close> reads is state of the form,
  \<^verbatim>\<open>
  const [signatureData, setSignatureData] = useState({ clientSignature: null, providerSignature: null });
  \<close>
  and \<^verbatim>\<open>setSignatureData\<close> is called in one place only:
  \<^verbatim>\<open>
  const handleSignatureCapture = useCallback((type, signaturePadRef) => {
    if (signaturePadRef.current) {
      const signature = signaturePadRef.current.toDataURL();
      setSignatureData(prev => ({ ...prev, [type]: signature }));
    }
  }, []);
  \<close>
  which the button \<^verbatim>\<open>Capture Signature\<close> calls:
  \<^verbatim>\<open>
  onClick={() => handleSignatureCapture(
    user?.role?.codename === 'client_contact' ? 'clientSignature' : 'providerSignature',
    signaturePadRef)}
  \<close>
  The component declares no \<^verbatim>\<open>signaturePadRef\<close>: there is no \<^verbatim>\<open>useRef\<close>, no variable
  and no parameter of that name around the JSX, only uses of the name. Module code is
  strict, so reading the name in the click handler throws a ReferenceError before
  \<^verbatim>\<open>handleSignatureCapture\<close> is entered, and the state stays as it was. (The pad's
  \<^verbatim>\<open>ref={(ref) => { signaturePadRef = ref; }}\<close> assigns the same undeclared name and
  throws likewise, so nothing is ever bound to it.) \<open>drawn\<close> is what \<^verbatim>\<open>toDataURL()\<close>
  would return for the strokes on the pad.
\<close>

definition initial_signatureData :: jsval where
  "initial_signatureData = Obj [(''clientSignature'', Null), (''providerSignature'', Null)]"

definition handleSignatureCapture :: "jsval \<Rightarrow> string \<Rightarrow> jsval \<Rightarrow> string \<Rightarrow> js_error + jsval" where
  "handleSignatureCapture sigs type padRef drawn =
     (case get_prop padRef ''current'' of
        None \<Rightarrow> Inl (TypeError ''Cannot read properties of undefined (reading current)'')
      | Some pad \<Rightarrow> if truthy pad then Inr (set_prop sigs type (Str drawn)) else Inr sigs)"

definition signaturePadRef :: "js_error + jsval" where
  "signaturePadRef = Inl (JSError ''ReferenceError'' ''signaturePadRef is not defined'')"

definition capture_click :: "jsval \<Rightarrow> string \<Rightarrow> jsval \<Rightarrow> jsval" where
  "capture_click user drawn sigs =
     (case signaturePadRef of
        Inl e \<Rightarrow> sigs
      | Inr padRef \<Rightarrow>
          (case handleSignatureCapture sigs (signatureKey user) padRef drawn of
             Inl e \<Rightarrow> sigs
           | Inr sigs' \<Rightarrow> sigs'))"

text \<open>
  The signature section of the form as the user can drive it. Its state is the reducer's
  state and \<^verbatim>\<open>signatureData\<close>; the reducer starts from
  \<^verbatim>\<open>{ loading: false, error: null, success: null, ... }\<close>. The button
  \<^verbatim>\<open>Sign Document\<close> is rendered under \<^verbatim>\<open>{changeRequest && (...)}\<close> and is disabled while
  \<^verbatim>\<open>formState.loading\<close>; the button \<^verbatim>\<open>Capture Signature\<close> is always there (in the modes
  other than \<^verbatim>\<open>view\<close>, which are the ones kept here). A click carries what the handler
  takes from outside: the strokes on the pad, or the time of the click.
\<close>

record signing_form =
  reducer_state :: form_state
  sig_data :: jsval

datatype click = CaptureSignature string | SignDocument string

definition new_signing_form :: signing_form where
  "new_signing_form =
     \<lparr>reducer_state = \<lparr>fs_loading = False, fs_error = None, fs_success = None, fs_calls = [],
                        fs_downloads = []\<rparr>,
      sig_data = initial_signatureData\<rparr>"

fun click_step ::
  "(api_call \<Rightarrow> js_error + jsval) \<Rightarrow> jsval \<Rightarrow> jsval \<Rightarrow> signing_form \<Rightarrow> click \<Rightarrow> signing_form" where
  "click_step answer changeRequest user sf (CaptureSignature drawn) =
     sf\<lparr>sig_data := capture_click user drawn (sig_data sf)\<rparr>"
| "click_step answer changeRequest user sf (SignDocument stamp) =
     (if truthy changeRequest \<and> \<not> fs_loading (reducer_state sf)
      then sf\<lparr>reducer_state :=
                handleSignatureSubmit answer (reducer_state sf) changeRequest user (sig_data sf) stamp\<rparr>
      else sf)"

definition clicks_after ::
  "(api_call \<Rightarrow> js_error + jsval) \<Rightarrow> jsval \<Rightarrow> jsval \<Rightarrow> click list \<Rightarrow> signing_form \<Rightarrow> signing_form" where
  "clicks_after answer changeRequest user clicks sf =
     foldl (click_step answer changeRequest user) sf clicks"

text \<open>
  \<^verbatim>\<open>
  const generateDocument = async () => {
    if (!handoverId) {
      setError('Please save the handover first before generating document');
      return;
    }
    setIsSubmitting(true);
    try {
      const response = await apiClient.post(`/api/pilot-handover/${handoverId}/generate_handover_document/`);
      const blob = new Blob([response.data], { type: 'application/pdf' });
      const url = window.URL.createObjectURL(blob);
      const link = document.createElement('a');
      link.href = url;
      link.download = `Internal_Handover_Document_${formState.projectId}.pdf`;
      document.body.appendChild(link); link.click(); document.body.removeChild(link);
      window.URL.revokeObjectURL(url);
      setSuccess('Document generated and downloaded successfully');
    } catch (error) {
      console.error('Error generating document:', error);
      setError('Failed to generate document');
    } finally { setIsSubmitting(false); }
  };
  \<close>
  Reading \<^verbatim>\<open>response.data\<close> throws when the helper resolved with \<^verbatim>\<open>null\<close> or
  \<^verbatim>\<open>undefined\<close>.
\<close>

definition generate_call :: "jsval \<Rightarrow> api_call" where
  "generate_call handoverId =
     \<lparr>call_url = ''/api/pilot-handover/'' @ js_String handoverId @ ''/generate_handover_document/'',
      call_method = ''POST'',
      call_body = None\<rparr>"

definition generateDocument ::
  "(api_call \<Rightarrow> js_error + jsval) \<Rightarrow> form_state \<Rightarrow> jsval \<Rightarrow> jsval \<Rightarrow> form_state" where
  "generateDocument answer st handoverId projectId =
     (if \<not> truthy handoverId
      then st\<lparr>fs_error := Some ''Please save the handover first before generating document''\<rparr>
      else
        let st1 = st\<lparr>fs_loading := True\<rparr>;
            call = generate_call handoverId;
            st2 = st1\<lparr>fs_calls := fs_calls st1 @ [call]\<rparr>
        in case answer call of
             Inl err \<Rightarrow> st2\<lparr>fs_error := Some ''Failed to generate document'', fs_loading := False\<rparr>
           | Inr response \<Rightarrow>
               (case get_prop response ''data'' of
                  None \<Rightarrow> st2\<lparr>fs_error := Some ''Failed to generate document'', fs_loading := False\<rparr>
                | Some d \<Rightarrow>
                    st2\<lparr>fs_downloads := fs_downloads st2
                           @ [''Internal_Handover_Document_'' @ js_String projectId @ ''.pdf''],
                        fs_success := Some ''Document generated and downloaded successfully'',
                        fs_loading := False\<rparr>))"

section \<open>Pilot acceptance form: checklist completion (PilotAcceptanceForm)\<close>

text \<open>
  \<^verbatim>\<open>CHECKLIST_ITEMS\<close>: the twelve checklist entries of the pilot-acceptance form; only
  their keys matter to the completion logic.
\<close>

definition CHECKLIST_ITEMS :: "string list" where
  "CHECKLIST_ITEMS =
     [''digital_gateway_live'', ''mobile_friendly'', ''pages_present'', ''portals_linked'',
      ''social_media_embedded'', ''logo_colors_correct'', ''photos_content_displayed'',
      ''layout_design_ok'', ''staff_training_completed'', ''training_materials_provided'',
      ''no_critical_errors'', ''minor_issues_resolved'']"

text \<open>
  \<^verbatim>\<open>formState.checklist\<close> is a JavaScript object from item key to the checkbox value, kept
  here as an association list in insertion order. The reducer case
  \<^verbatim>\<open>UPDATE_CHECKLIST\<close> spreads the payload over the old object:
  \<^verbatim>\<open>checklist: { ...state.checklist, ...action.payload }\<close>, and
  \<^verbatim>\<open>handleChecklistChange(itemKey, checked)\<close> dispatches the one-entry payload
  \<^verbatim>\<open>{ [itemKey]: checked }\<close>. The initial state has \<^verbatim>\<open>checklist: {}\<close>.
\<close>

type_synonym checklist = "(string \<times> bool) list"

definition handleChecklistChange :: "string \<Rightarrow> bool \<Rightarrow> checklist \<Rightarrow> checklist" where
  "handleChecklistChange itemKey checked cl = AList.update itemKey checked cl"

definition initial_checklist :: checklist where
  "initial_checklist = []"

text \<open>
  The checkbox of each entry of \<^verbatim>\<open>CHECKLIST_ITEMS\<close> calls
  \<^verbatim>\<open>handleChecklistChange(item.key, e.target.checked)\<close>; nothing else changes the
  checklist. A run of the form is a list of such changes, applied from the empty object.
\<close>

fun checklist_after :: "(string \<times> bool) list \<Rightarrow> checklist \<Rightarrow> checklist" where
  "checklist_after [] cl = cl"
| "checklist_after ((k, b) # evs) cl = checklist_after evs (handleChecklistChange k b cl)"

text \<open>
  \<^verbatim>\<open>calculateCompletion\<close>:
  \<^verbatim>\<open>
  const totalItems = CHECKLIST_ITEMS.length;
  const completedItems = Object.values(checklist).filter(Boolean).length;
  return Math.round((completedItems / totalItems) * 100);
  \<close>
  \<^verbatim>\<open>Math.round\<close> rounds to the nearest integer, halves upwards, which is HOL's
  \<^const>\<open>round\<close>; the quotient is taken over the rationals (for at most twelve completed
  items the quotient is a whole number or has fractional part one or two thirds, far from
  a tie, so the double-precision result rounds the same way).
\<close>

definition completedItems :: "checklist \<Rightarrow> nat" where
  "completedItems cl = length (filter (\<lambda>b. b) (map snd cl))"

definition calculateCompletion :: "checklist \<Rightarrow> int" where
  "calculateCompletion cl =
     round ((of_nat (completedItems cl) / of_nat (length CHECKLIST_ITEMS)) * (100 :: rat))"

text \<open>
  The submit button: \<^verbatim>\<open>disabled={isLoading || completionPercentage < 100}\<close>.
\<close>

definition submit_disabled :: "bool \<Rightarrow> checklist \<Rightarrow> bool" where
  "submit_disabled loading cl \<longleftrightarrow> loading \<or> calculateCompletion cl < 100"

text \<open>Every one of the twelve checkboxes ticked once, as a run of the form.\<close>

definition all_checked_events :: "(string \<times> bool) list" where
  "all_checked_events = map (\<lambda>k. (k, True)) CHECKLIST_ITEMS"

section \<open>Example surroundings and inputs\<close>

text \<open>
  Concrete storages, worlds and inputs, on which the theorems below are evaluated. A
  storage that accepts every write, one whose quota is used up, and one the user agent
  denies access to.
\<close>

definition open_storage :: "(string \<times> js_text) list \<Rightarrow> local_storage" where
  "open_storage es = \<lparr>entries = es, quota_ok = (\<lambda>es key t. True), denied = False\<rparr>"

definition full_storage :: "(string \<times> js_text) list \<Rightarrow> local_storage" where
  "full_storage es = \<lparr>entries = es, quota_ok = (\<lambda>es key t. False), denied = False\<rparr>"

definition denied_storage :: "(string \<times> js_text) list \<Rightarrow> local_storage" where
  "denied_storage es = \<lparr>entries = es, quota_ok = (\<lambda>es key t. True), denied = True\<rparr>"

text \<open>The time values of two ISO strings, an hour apart.\<close>

definition example_date_value :: "jsval \<Rightarrow> int option" where
  "example_date_value v =
     (if v = Str ''2024-01-01T10:00:00.000Z'' then Some 1704103200000
      else if v = Str ''2024-01-01T11:00:00.000Z'' then Some 1704106800000
      else None)"

definition example_file :: js_file where
  "example_file = \<lparr>file_name = ''notes.txt'', file_size = 5, file_type = ''text/plain'',
                    file_lastModified = 1704100000000, file_content = ''hello''\<rparr>"

definition example_world :: "local_storage \<Rightarrow> (request list \<Rightarrow> request \<Rightarrow> fetch_outcome) \<Rightarrow> world" where
  "example_world ls net =
     \<lparr>localStorage = ls, storage = [], isLoading = False, error = None, sent = [], alerts = [],
      network = net, API_BASE_URL = ''http://localhost:4002/api'',
      date_value = example_date_value,
      readAsDataURL = (\<lambda>f. if file_content f = ''hello''
                              then Some (''data:'' @ file_type f @ '';base64,aGVsbG8='') else None),
      fetch_blob = (\<lambda>v. if v = Str ''data:text/plain;base64,aGVsbG8=''
                          then Inr \<lparr>blob_size = 5, blob_content = ''hello''\<rparr>
                          else Inl (JSError ''TypeError'' ''Failed to fetch'')),
      new_File = (\<lambda>b name type lm.
                    \<lparr>file_name = js_String name, file_size = blob_size b, file_type = js_String type,
                     file_lastModified = (case lm of Num n \<Rightarrow> n | _ \<Rightarrow> 0),
                     file_content = blob_content b\<rparr>),
      parseInt = (\<lambda>v. if v = Str ''350'' then Num 350 else if v = Str ''40'' then Num 40 else NaN),
      parseFloat = (\<lambda>v. if v = Str ''100'' then Num 100 else NaN)\<rparr>"

text \<open>A network without connection: every \<^verbatim>\<open>fetch\<close> rejects.\<close>

definition offline :: "request list \<Rightarrow> request \<Rightarrow> fetch_outcome" where
  "offline history r = Rejected (JSError ''TypeError'' ''Failed to fetch'')"

definition example_data :: jsval where
  "example_data =
     Obj [(''school_name'', Str ''Hilltop School''), (''project_type'', Arr [Str ''mobile_app'']),
          (''content_availability'', Bool False)]"

text \<open>
  Two queued jobs, the second an hour younger, the two orders of their keys, and a queue
  of the older job alone.
\<close>

definition job_old :: jsval where
  "job_old = fileData ''file_queue_1704103200000_k3j9x0p2q'' example_file
               ''data:text/plain;base64,aGVsbG8='' (Str ''project-1'') (Str [])
               ''2024-01-01T10:00:00.000Z''"

definition job_new :: jsval where
  "job_new = fileData ''file_queue_1704106800000_a8m2c7d1z'' example_file
               ''data:text/plain;base64,aGVsbG8='' (Str ''project-2'') (Str ''minutes'')
               ''2024-01-01T11:00:00.000Z''"


definition queue_old_first :: "(string \<times> js_text) list" where
  "queue_old_first = [(''file_queue_1704103200000_k3j9x0p2q'', JsonText job_old),
                      (''file_queue_1704106800000_a8m2c7d1z'', JsonText job_new)]"



text \<open>
  A network that answers every request with one given response, a storage that holds a
  token and a saved form, and two failure responses.
\<close>

definition answering :: "response \<Rightarrow> request list \<Rightarrow> request \<Rightarrow> fetch_outcome" where
  "answering r history req = Response r"

definition token_storage :: local_storage where
  "token_storage = open_storage [(''auth_token'', RawText ''eyJhbGciOi.eyJ1c2VyIjo.c2lnbmF0dXJl''),
                                 (''client_intake_form'', JsonText example_data)]"

definition unauthorized :: response where
  "unauthorized = \<lparr>status = 401, content_type = Some ''application/json'',
                    resp_body = JsonText (Obj [(''detail'', Str ''Token expired'')])\<rparr>"

definition forbidden :: response where
  "forbidden = \<lparr>status = 403, content_type = Some ''application/json'',
                 resp_body = JsonText (Obj [(''detail'', Str ''Not allowed'')])\<rparr>"

definition post_options :: request_options where
  "post_options = \<lparr>opt_method = Some ''POST'', opt_body = Some (JsonText example_data),
                    opt_headers = []\<rparr>"






text \<open>
  A staff user, a saved change request, and a helper that resolves every call.
\<close>

definition staff_user :: jsval where
  "staff_user = Obj [(''id'', Str ''test-user-id''), (''username'', Str ''testuser''),
                     (''role'', Obj [(''codename'', Str ''staff''), (''name'', Str ''Staff'')])]"

definition saved_change_request :: jsval where
  "saved_change_request = Obj [(''id'', Str ''cr-17''), (''reference_agreement'', Str ''A-1'')]"

definition resolving :: "api_call \<Rightarrow> js_error + jsval" where
  "resolving call = Inr (Obj [(''data'', Obj [(''id'', Str ''cr-17'')])])"

text \<open>
  A filled-in intake form, the same form with its start date as the date picker gives it,
  and a network that accepts every request.
\<close>

definition complete_form :: jsval where
  "complete_form =
     Obj [(''school_name'', Str ''Hilltop School''), (''address'', Str ''1 Hill Road''),
          (''contact_person'', Str ''A. Mensah''), (''email'', Str ''office@hilltop.example''),
          (''number_of_students'', Str ''350''), (''number_of_staff'', Str []),
          (''project_type'', Arr [Str ''mobile_app'']),
          (''project_purpose'', Arr [Str ''enhance_communication'']),
          (''pilot_scope_features'', Arr [Str ''gradebook'', Str ''data_export'']),
          (''pilot_start_date'', DateV (Some ''2024-03-01T00:00:00.000Z'')),
          (''pilot_end_date'', Null),
          (''timeline_preference'', Str ''3_months''),
          (''token_commitment_fee'', Str ''100'')]"

definition incomplete_form :: jsval where
  "incomplete_form =
     Obj [(''school_name'', Str ''Hilltop School''), (''contact_person'', Str []),
          (''email'', Str ''office@hilltop.example''),
          (''project_type'', Arr []),
          (''project_purpose'', Arr [Str ''enhance_communication'']),
          (''pilot_scope_features'', Arr [Str ''gradebook'']),
          (''pilot_start_date'', Null), (''pilot_end_date'', Null)]"

text \<open>A form with every field filled in, both dates picked.\<close>

definition full_form :: jsval where
  "full_form =
     Obj [(''school_name'', Str ''Hilltop School''), (''address'', Str ''1 Hill Road''),
          (''contact_person'', Str ''A. Mensah''), (''role_position'', Str ''Head teacher''),
          (''phone_whatsapp'', Str ''+233 20 000 0000''), (''email'', Str ''office@hilltop.example''),
          (''current_website'', Str ''https://hilltop.example''),
          (''number_of_students'', Str ''350''), (''number_of_staff'', Str ''40''),
          (''project_type'', Arr [Str ''mobile_app'']),
          (''project_purpose'', Arr [Str ''enhance_communication'']),
          (''pilot_scope_features'', Arr [Str ''gradebook'', Str ''data_export'']),
          (''pilot_start_date'', DateV (Some ''2024-03-01T00:00:00.000Z'')),
          (''pilot_end_date'', DateV (Some ''2024-05-31T00:00:00.000Z'')),
          (''timeline_preference'', Str ''3_months''),
          (''design_preferences'', Str ''plain''), (''logo_colors'', Str ''green and gold''),
          (''content_availability'', Bool True), (''maintenance_plan'', Str ''monthly''),
          (''token_commitment_fee'', Str ''100''),
          (''additional_notes'', Str ''none''), (''acknowledgment'', Bool True)]"

text \<open>
  The form as it is restored after a reload: saved to local storage while it was being
  filled in, read back by \<^verbatim>\<open>syncOffline\<close>, and handed field by field to
  \<^verbatim>\<open>setValue\<close> (\<^verbatim>\<open>loadSavedData\<close>).
\<close>

definition restored_form :: jsval where
  "restored_form =
     fst (syncOffline (snd (saveOffline (example_world (open_storage []) offline)
                              ''client_intake_form'' complete_form))
            ''client_intake_form'')"

definition created :: response where
  "created = \<lparr>status = 201, content_type = Some ''application/json'',
               resp_body = JsonText (Obj [(''id'', Num 12)])\<rparr>"



section \<open>Notions used to state the replay of the queue\<close>






text \<open>Local storage that can be used and accepts every write.\<close>

definition storage_ok :: "world \<Rightarrow> bool" where
  "storage_ok w \<longleftrightarrow>
     \<not> denied (localStorage w) \<and> (\<forall>es key t. quota_ok (localStorage w) es key t)"



section \<open>Printing numbers\<close>

lemmas eval_number = number_string_def number_digits_def number_format_def exponent_form_def
  candidate_def nearest_def rounds_to_def rounds_to_at_def in_gap_def nearest_double_def
  show_int_def Let_def

lemma number_string_examples:
  "number_string 1704103200000 = ''1704103200000''"
  "number_string (- 12) = ''-12''"
  "number_string 1152921504606846976 = ''1152921504606847000''"
  "number_string 1000000000000000000000 = ''1e+21''"
  "number_string 1180591620717411303424 = ''1.1805916207174113e+21''"
  by (simp_all add: eval_number)

section \<open>Properties of the pilot acceptance checklist\<close>

lemma length_CHECKLIST_ITEMS: "length CHECKLIST_ITEMS = 12"
  by (simp add: CHECKLIST_ITEMS_def)

lemma distinct_CHECKLIST_ITEMS: "distinct CHECKLIST_ITEMS"
  by (simp add: CHECKLIST_ITEMS_def)

lemma round_pct_ge: "(100 \<le> round ((of_nat n / 12) * (100 :: rat))) = (12 \<le> n)"
proof -
  have "(100 \<le> round ((of_nat n / 12) * (100 :: rat))) = ((100::rat) \<le> (of_nat n / 12) * 100 + 1 / 2)"
    unfolding round_def by (simp add: le_floor_iff)
  also have "\<dots> = ((1194 :: rat) \<le> 100 * of_nat n)" by (simp add: field_simps)
  also have "\<dots> = (of_nat 1194 \<le> (of_nat (100 * n) :: rat))" by simp
  also have "\<dots> = (1194 \<le> 100 * n)" by (simp only: of_nat_le_iff)
  also have "\<dots> = (12 \<le> n)" by arith
  finally show ?thesis .
qed

lemma round_pct_le: "(round ((of_nat n / 12) * (100 :: rat)) \<le> 100) = (n \<le> 12)"
proof -
  have "(round ((of_nat n / 12) * (100 :: rat)) \<le> 100) = (round ((of_nat n / 12) * (100 :: rat)) < 101)"
    by arith
  also have "\<dots> = ((of_nat n / 12) * 100 + 1 / 2 < (101::rat))"
    unfolding round_def by (simp add: floor_less_iff)
  also have "\<dots> = (100 * of_nat n < (1206 :: rat))" by (simp add: field_simps)
  also have "\<dots> = ((of_nat (100 * n) :: rat) < of_nat 1206)" by simp
  also have "\<dots> = (100 * n < 1206)" by (simp only: of_nat_less_iff)
  also have "\<dots> = (n \<le> 12)" by arith
  finally show ?thesis .
qed

lemma calculateCompletion_ge: "(100 \<le> calculateCompletion cl) = (12 \<le> completedItems cl)"
  by (simp only: calculateCompletion_def length_CHECKLIST_ITEMS of_nat_numeral round_pct_ge)

lemma calculateCompletion_le: "(calculateCompletion cl \<le> 100) = (completedItems cl \<le> 12)"
  by (simp only: calculateCompletion_def length_CHECKLIST_ITEMS of_nat_numeral round_pct_le)

lemma calculateCompletion_eq: "(calculateCompletion cl = 100) = (completedItems cl = 12)"
  using calculateCompletion_ge [of cl] calculateCompletion_le [of cl] by linarith

lemma handleChecklistChange_keys:
  "fst ` set (handleChecklistChange k b cl) = insert k (fst ` set cl)"
  by (simp add: handleChecklistChange_def dom_update[simplified])

lemma handleChecklistChange_distinct:
  "distinct (map fst cl) \<Longrightarrow> distinct (map fst (handleChecklistChange k b cl))"
  by (simp add: handleChecklistChange_def distinct_update)

lemma checklist_after_inv:
  "\<forall>(k, b) \<in> set evs. k \<in> set CHECKLIST_ITEMS \<Longrightarrow> distinct (map fst cl) \<Longrightarrow>
   fst ` set cl \<subseteq> set CHECKLIST_ITEMS \<Longrightarrow>
   distinct (map fst (checklist_after evs cl)) \<and>
   fst ` set (checklist_after evs cl) \<subseteq> set CHECKLIST_ITEMS"
proof (induction evs cl rule: checklist_after.induct)
  case (1 cl)
  then show ?case by simp
next
  case (2 k b evs cl)
  show ?case
    using 2 by (simp add: handleChecklistChange_keys handleChecklistChange_distinct)
qed

lemma completedItems_filter: "completedItems cl = length (filter snd cl)"
  by (simp add: completedItems_def filter_map comp_def)

lemma completedItems_le:
  assumes "distinct (map fst cl)" "fst ` set cl \<subseteq> set CHECKLIST_ITEMS"
  shows "completedItems cl \<le> 12"
proof -
  have d: "distinct (map fst (filter snd cl))" using assms(1) by (simp add: distinct_map_filter)
  have "completedItems cl = length (map fst (filter snd cl))" by (simp add: completedItems_filter)
  also have "\<dots> = card (set (map fst (filter snd cl)))" using distinct_card [OF d] by simp
  also have "\<dots> \<le> card (set CHECKLIST_ITEMS)"
    using assms(2) by (intro card_mono) auto
  also have "\<dots> = 12" using distinct_CHECKLIST_ITEMS length_CHECKLIST_ITEMS by (simp add: distinct_card)
  finally show ?thesis .
qed

lemma completedItems_all:
  assumes "distinct (map fst cl)" "fst ` set cl \<subseteq> set CHECKLIST_ITEMS"
  shows "(completedItems cl = 12) = (\<forall>k \<in> set CHECKLIST_ITEMS. map_of cl k = Some True)"
proof
  assume c: "completedItems cl = 12"
  have d: "distinct (map fst (filter snd cl))" using assms(1) by (simp add: distinct_map_filter)
  have "card (set (map fst (filter snd cl))) = 12"
    using distinct_card [OF d] c by (simp add: completedItems_filter)
  moreover have "card (set CHECKLIST_ITEMS) = 12"
    using distinct_CHECKLIST_ITEMS length_CHECKLIST_ITEMS by (simp add: distinct_card)
  moreover have "set (map fst (filter snd cl)) \<subseteq> set CHECKLIST_ITEMS" using assms(2) by auto
  ultimately have eq: "set (map fst (filter snd cl)) = set CHECKLIST_ITEMS"
    by (intro card_subset_eq) auto
  show "\<forall>k \<in> set CHECKLIST_ITEMS. map_of cl k = Some True"
  proof
    fix k assume "k \<in> set CHECKLIST_ITEMS"
    then have "k \<in> set (map fst (filter snd cl))" using eq by simp
    then obtain b where "(k, b) \<in> set cl" "b" by auto
    then show "map_of cl k = Some True" using assms(1) by simp
  qed
next
  assume a: "\<forall>k \<in> set CHECKLIST_ITEMS. map_of cl k = Some True"
  have "set CHECKLIST_ITEMS \<subseteq> set (map fst (filter snd cl))"
  proof
    fix k assume "k \<in> set CHECKLIST_ITEMS"
    then have "map_of cl k = Some True" using a by simp
    then have "(k, True) \<in> set cl" by (rule map_of_SomeD)
    then show "k \<in> set (map fst (filter snd cl))" by force
  qed
  then have "card (set CHECKLIST_ITEMS) \<le> card (set (map fst (filter snd cl)))"
    by (intro card_mono) auto
  moreover have "card (set CHECKLIST_ITEMS) = 12"
    using distinct_CHECKLIST_ITEMS length_CHECKLIST_ITEMS by (simp add: distinct_card)
  moreover have "card (set (map fst (filter snd cl))) \<le> length (filter snd cl)"
    by (metis card_length length_map)
  ultimately have "12 \<le> completedItems cl" by (simp add: completedItems_filter)
  then show "completedItems cl = 12" using completedItems_le [OF assms] by simp
qed

text \<open>
  Claim C8. In the pilot-acceptance form the completion percentage is
  \<^verbatim>\<open>Math.round(100 * checked / 12)\<close> over the twelve checklist items, and the Submit
  Acceptance button is enabled only when the percentage is 100. In every state the form
  can reach by ticking and unticking the twelve checkboxes, the percentage is 100 exactly
  when all twelve items are checked, so submission is possible only with every item checked.
\<close>

theorem submit_enabled_only_when_all_checked:
  assumes "\<forall>(k, b) \<in> set evs. k \<in> set CHECKLIST_ITEMS"
  shows "calculateCompletion (checklist_after evs initial_checklist) =
           round ((100 :: rat) * of_nat (completedItems (checklist_after evs initial_checklist)) / 12)
       \<and> (\<not> submit_disabled loading (checklist_after evs initial_checklist) \<longrightarrow>
            calculateCompletion (checklist_after evs initial_checklist) = 100)
       \<and> ((calculateCompletion (checklist_after evs initial_checklist) = 100) =
            (\<forall>k \<in> set CHECKLIST_ITEMS. map_of (checklist_after evs initial_checklist) k = Some True))"
proof -
  let ?cl = "checklist_after evs initial_checklist"
  have inv: "distinct (map fst ?cl)" "fst ` set ?cl \<subseteq> set CHECKLIST_ITEMS"
    using checklist_after_inv [OF assms, of initial_checklist] by (simp_all add: initial_checklist_def)
  have a: "calculateCompletion ?cl = round ((100 :: rat) * of_nat (completedItems ?cl) / 12)"
    by (simp add: calculateCompletion_def length_CHECKLIST_ITEMS mult.commute)
  have b: "\<not> submit_disabled loading ?cl \<longrightarrow> calculateCompletion ?cl = 100"
    using completedItems_le [OF inv] calculateCompletion_ge [of ?cl] calculateCompletion_eq [of ?cl]
    by (auto simp: submit_disabled_def)
  have c: "(calculateCompletion ?cl = 100) = (\<forall>k \<in> set CHECKLIST_ITEMS. map_of ?cl k = Some True)"
    using completedItems_all [OF inv] calculateCompletion_eq [of ?cl] by simp
  show ?thesis using a b c by blast
qed

theorem submit_enabled_only_when_all_checked_witness:
  "fst ` set all_checked_events \<subseteq> set CHECKLIST_ITEMS
   \<and> \<not> submit_disabled False (checklist_after all_checked_events initial_checklist)
   \<and> calculateCompletion (checklist_after all_checked_events initial_checklist) = 100
   \<and> list_all (\<lambda>k. map_of (checklist_after all_checked_events initial_checklist) k = Some True)
        CHECKLIST_ITEMS"
proof -
  have h: "\<forall>(k, b) \<in> set all_checked_events. k \<in> set CHECKLIST_ITEMS"
    by (auto simp: all_checked_events_def)
  have e: "completedItems (checklist_after all_checked_events initial_checklist) = 12"
    by (simp add: all_checked_events_def CHECKLIST_ITEMS_def initial_checklist_def
        handleChecklistChange_def completedItems_def)
  have n: "\<not> submit_disabled False (checklist_after all_checked_events initial_checklist)"
    using e calculateCompletion_ge [of "checklist_after all_checked_events initial_checklist"]
    by (simp add: submit_disabled_def)
  have s: "fst ` set all_checked_events \<subseteq> set CHECKLIST_ITEMS"
    using h by auto
  have t: "calculateCompletion (checklist_after all_checked_events initial_checklist) = 100
      \<and> (\<forall>k \<in> set CHECKLIST_ITEMS.
            map_of (checklist_after all_checked_events initial_checklist) k = Some True)"
    using n submit_enabled_only_when_all_checked [OF h, of False] by blast
  show ?thesis
    using s n t unfolding list_all_iff by blast
qed

section \<open>Properties of offline storage\<close>

lemma to_json_fields:
  "\<forall>(k, v) \<in> set kvs. to_json v = Some v \<Longrightarrow>
   concat (map (\<lambda>(k, v). case to_json v of None \<Rightarrow> [] | Some j \<Rightarrow> [(k, j)]) kvs) = kvs"
  by (induction kvs) auto

lemma to_json_elements:
  "\<forall>x \<in> set xs. to_json x = Some x \<Longrightarrow>
   map (\<lambda>x. case to_json x of None \<Rightarrow> Null | Some j \<Rightarrow> j) xs = xs"
  by (induction xs) auto

lemma to_json_is_json: "is_json v \<Longrightarrow> to_json v = Some v"
proof (induction v)
  case (Arr xs)
  then have "\<forall>x \<in> set xs. to_json x = Some x" by (simp add: list_all_iff)
  then show ?case by (simp add: to_json_elements)
next
  case (Obj kvs)
  then have "\<forall>(k, v) \<in> set kvs. to_json v = Some v"
    by (fastforce simp: list_all_iff)
  then show ?case by (simp add: to_json_fields)
qed simp_all

lemma to_json_Obj: "\<exists>j. to_json (Obj kvs) = Some j"
  by simp

lemma JSON_round_trip: "is_json v \<Longrightarrow> JSON_stringify v = Some (JsonText v)"
  by (simp add: JSON_stringify_def to_json_is_json)

lemma map_of_update: "map_of (AList.update k v al) k = Some v"
  by (simp add: update_conv')

lemma map_of_update_other: "k \<noteq> key \<Longrightarrow> map_of (AList.update key v al) k = map_of al k"
  by (simp add: update_conv')

lemma update_fresh: "key \<notin> fst ` set al \<Longrightarrow> AList.update key v al = al @ [(key, v)]"
  by (induction al) auto

lemma loadFromStorage_denied: "denied ls \<Longrightarrow> loadFromStorage ls key = Null"
  by (simp add: loadFromStorage_def getItem_def)

lemma saveToStorage_denied: "denied ls \<Longrightarrow> saveToStorage ls key v = (False, ls)"
  by (simp add: saveToStorage_def setItem_def removeItem_def)

lemma saveToStorage_success:
  "fst (saveToStorage ls key v) \<Longrightarrow> v \<noteq> Null \<Longrightarrow>
   \<not> denied ls \<and> snd (saveToStorage ls key v) =
      ls\<lparr>entries := AList.update key (stored_string (JSON_stringify v)) (entries ls)\<rparr>"
  by (auto simp: saveToStorage_def setItem_def split: if_splits)

lemma saveToStorage_Null:
  "\<not> denied ls \<Longrightarrow> saveToStorage ls key Null = (True, ls\<lparr>entries := AList.delete key (entries ls)\<rparr>)"
  by (simp add: saveToStorage_def removeItem_def)

lemma syncOffline_result: "fst (syncOffline w key) = loadFromStorage (localStorage w) key"
  by (simp add: syncOffline_def Let_def)

lemma saveOffline_storage:
  "localStorage (snd (saveOffline w key v)) = snd (saveToStorage (localStorage w) key v)"
  "fst (saveOffline w key v) = fst (saveToStorage (localStorage w) key v)"
  by (simp_all add: saveOffline_def split: prod.splits)

text \<open>
  Claim C9. Offline storage round trip: for every key and every JSON-serializable value
  \<open>v\<close>, a successful \<^verbatim>\<open>saveOffline(key, v)\<close> followed by \<^verbatim>\<open>syncOffline(key)\<close> returns
  \<open>v\<close>; \<^verbatim>\<open>saveOffline(key, null)\<close> removes the entry, after which \<^verbatim>\<open>syncOffline(key)\<close>
  returns \<^verbatim>\<open>null\<close>; and when the underlying read, parse or write throws, the operations
  return \<^verbatim>\<open>null\<close> or \<^verbatim>\<open>false\<close> (the write leaving storage as it was) instead of
  passing the exception on.
\<close>

theorem offline_storage_round_trip:
  "(is_json v \<and> fst (saveOffline w key v) \<longrightarrow>
      fst (syncOffline (snd (saveOffline w key v)) key) = v)
   \<and> (fst (saveOffline w key Null) \<longrightarrow>
         map_of (entries (localStorage (snd (saveOffline w key Null)))) key = None)
   \<and> fst (syncOffline (snd (saveOffline w key Null)) key) = Null
   \<and> (\<forall>e. getItem (localStorage w) key = Inl e \<longrightarrow> fst (syncOffline w key) = Null)
   \<and> (\<forall>t e. getItem (localStorage w) key = Inr (Some t) \<and> JSON_parse t = Inl e \<longrightarrow>
         fst (syncOffline w key) = Null)
   \<and> (\<forall>e. v \<noteq> Null \<and> setItem (localStorage w) key (stored_string (JSON_stringify v)) = Inl e \<longrightarrow>
         fst (saveOffline w key v) = False \<and> localStorage (snd (saveOffline w key v)) = localStorage w)
   \<and> (\<forall>e. removeItem (localStorage w) key = Inl e \<longrightarrow>
         fst (saveOffline w key Null) = False \<and> localStorage (snd (saveOffline w key Null)) = localStorage w)"
proof -
  let ?ls = "localStorage w"
  have a: "fst (syncOffline (snd (saveOffline w key v)) key) = v"
    if j: "is_json v" and s: "fst (saveOffline w key v)"
  proof (cases "v = Null")
    case True
    have "loadFromStorage (snd (saveToStorage ?ls key Null)) key = Null"
      by (cases "denied ?ls")
         (simp_all add: saveToStorage_denied loadFromStorage_denied saveToStorage_Null
            loadFromStorage_def getItem_def delete_conv')
    then show ?thesis using True by (simp add: syncOffline_result saveOffline_storage)
  next
    case False
    from s have "fst (saveToStorage ?ls key v)" by (simp add: saveOffline_storage)
    from saveToStorage_success [OF this False]
    have "loadFromStorage (snd (saveToStorage ?ls key v)) key = v"
      using j by (simp add: loadFromStorage_def getItem_def map_of_update JSON_round_trip
          stored_string_def JSON_parse_def)
    then show ?thesis by (simp add: syncOffline_result saveOffline_storage)
  qed
  have b: "map_of (entries (localStorage (snd (saveOffline w key Null)))) key = None"
    if "fst (saveOffline w key Null)"
    using that
    by (cases "denied ?ls")
       (simp_all add: saveOffline_storage saveToStorage_denied saveToStorage_Null delete_conv')
  have c: "fst (syncOffline (snd (saveOffline w key Null)) key) = Null"
    by (cases "denied ?ls")
       (simp_all add: syncOffline_result saveOffline_storage saveToStorage_denied
          loadFromStorage_denied saveToStorage_Null loadFromStorage_def getItem_def delete_conv')
  have d: "\<forall>e. getItem ?ls key = Inl e \<longrightarrow> fst (syncOffline w key) = Null"
    by (simp add: syncOffline_result loadFromStorage_def)
  have e: "\<forall>t e. getItem ?ls key = Inr (Some t) \<and> JSON_parse t = Inl e \<longrightarrow>
             fst (syncOffline w key) = Null"
    by (auto simp: syncOffline_result loadFromStorage_def)
  have f: "\<forall>e. v \<noteq> Null \<and> setItem ?ls key (stored_string (JSON_stringify v)) = Inl e \<longrightarrow>
         fst (saveOffline w key v) = False \<and> localStorage (snd (saveOffline w key v)) = ?ls"
    by (simp add: saveOffline_storage saveToStorage_def)
  have g: "\<forall>e. removeItem ?ls key = Inl e \<longrightarrow>
         fst (saveOffline w key Null) = False \<and> localStorage (snd (saveOffline w key Null)) = ?ls"
    by (simp add: saveOffline_storage saveToStorage_def)
  show ?thesis using a b c d e f g by blast
qed

theorem offline_storage_round_trip_witness:
  "is_json example_data
   \<and> fst (saveOffline (example_world (open_storage []) offline) ''client_intake_form'' example_data)
   \<and> fst (syncOffline (snd (saveOffline (example_world (open_storage []) offline)
             ''client_intake_form'' example_data)) ''client_intake_form'') = example_data
   \<and> fst (saveOffline (example_world (open_storage []) offline) ''client_intake_form'' Null)
   \<and> map_of (entries (localStorage (snd (saveOffline (example_world (open_storage []) offline)
             ''client_intake_form'' Null)))) ''client_intake_form'' = None
   \<and> getItem (localStorage (example_world (denied_storage []) offline)) ''client_intake_form''
       = Inl SecurityError
   \<and> fst (syncOffline (example_world (denied_storage []) offline) ''client_intake_form'') = Null
   \<and> setItem (localStorage (example_world (full_storage []) offline)) ''client_intake_form''
         (stored_string (JSON_stringify example_data)) = Inl QuotaExceededError
   \<and> fst (saveOffline (example_world (full_storage []) offline) ''client_intake_form'' example_data)
       = False"
proof -
  let ?k = "''client_intake_form''"
  have w1: "is_json example_data" by (simp add: example_data_def)
  have w2: "fst (saveOffline (example_world (open_storage []) offline) ?k example_data)"
    by (simp add: saveOffline_def saveToStorage_def setItem_def example_world_def
        open_storage_def example_data_def)
  have w3: "fst (saveOffline (example_world (open_storage []) offline) ?k Null)"
    by (simp add: saveOffline_def saveToStorage_def removeItem_def example_world_def
        open_storage_def)
  have w4: "getItem (localStorage (example_world (denied_storage []) offline)) ?k
              = Inl SecurityError"
    by (simp add: getItem_def example_world_def denied_storage_def)
  have w5: "setItem (localStorage (example_world (full_storage []) offline)) ?k
              (stored_string (JSON_stringify example_data)) = Inl QuotaExceededError"
    by (simp add: setItem_def example_world_def full_storage_def)
  have w6: "example_data \<noteq> Null" by (simp add: example_data_def)
  show ?thesis
    using w1 w2 w3 w4 w5 w6
      offline_storage_round_trip [of example_data "example_world (open_storage []) offline" ?k]
      offline_storage_round_trip [of example_data "example_world (denied_storage []) offline" ?k]
      offline_storage_round_trip [of example_data "example_world (full_storage []) offline" ?k]
    by blast
qed

section \<open>Properties of the file queue\<close>








lemma addFileToQueue_cases:
  assumes r: "readAsDataURL w f = Some content"
      and d: "fileData (queueKey now rnd) f content projectId
                (if description = Undefined then Str [] else description) stamp = data"
      and j: "to_json data = Some job"
      and n: "data \<noteq> Null"
  shows "if \<not> denied (localStorage w)
            \<and> quota_ok (localStorage w) (entries (localStorage w)) (queueKey now rnd) (JsonText job)
         then \<exists>w'. addFileToQueue w now rnd stamp f projectId description = Some (True, w')
                \<and> map_of (entries (localStorage w')) (queueKey now rnd) = Some (JsonText job)
                \<and> (\<forall>k. k \<noteq> queueKey now rnd \<longrightarrow>
                      map_of (entries (localStorage w')) k = map_of (entries (localStorage w)) k)
                \<and> (queueKey now rnd \<notin> fst ` set (entries (localStorage w)) \<longrightarrow>
                      entries (localStorage w') = entries (localStorage w)
                        @ [(queueKey now rnd, JsonText job)])
         else addFileToQueue w now rnd stamp f projectId description = Some (False, w)"
  using r n j
  by (auto simp: addFileToQueue_def d saveToStorage_def setItem_def JSON_stringify_def
      stored_string_def map_of_update map_of_update_other update_fresh Let_def)

text \<open>
  Claim C4, as the code has it. A call of \<^verbatim>\<open>addFileToQueue\<close> whose file read completes
  and whose write local storage accepts returns \<^verbatim>\<open>true\<close> and stores one job under the
  key \<^verbatim>\<open>file_queue_<Date.now()>_<characters 2 to 10 of the random number in base 36>\<close>.
  The job is the JSON text of the object written out below: the key as \<^verbatim>\<open>id\<close>, the
  file's name, size, type and modification time with its content as the data URL the reader
  produced, the given project and description (the empty string when no description is
  given), the time stamp and the status \<^verbatim>\<open>pending\<close>; when project and description are
  JSON values the stored job is that very object. Entries under other keys are left as they
  were, and a key not yet in use is added after them. When storage refuses the write, or is
  denied, the call returns \<^verbatim>\<open>false\<close> and changes nothing; when the file cannot be read
  the call never returns.
\<close>

theorem addFileToQueue_stores_job:
  "(readAsDataURL w f = None \<longrightarrow>
      addFileToQueue w now rnd stamp f projectId description = None)
   \<and> (\<forall>content. readAsDataURL w f = Some content \<longrightarrow>
        (\<exists>job.
           to_json (Obj [(''id'', Str (queueKey now rnd)),
                         (''file'', Obj [(''name'', Str (file_name f)),
                                        (''size'', Num (int (file_size f))),
                                        (''type'', Str (file_type f)),
                                        (''lastModified'', Num (file_lastModified f)),
                                        (''content'', Str content)]),
                         (''projectId'', projectId),
                         (''description'', if description = Undefined then Str [] else description),
                         (''timestamp'', Str stamp),
                         (''status'', Str ''pending'')]) = Some job
         \<and> (is_json projectId \<and> is_json description \<longrightarrow>
              job = Obj [(''id'', Str (queueKey now rnd)),
                         (''file'', Obj [(''name'', Str (file_name f)),
                                        (''size'', Num (int (file_size f))),
                                        (''type'', Str (file_type f)),
                                        (''lastModified'', Num (file_lastModified f)),
                                        (''content'', Str content)]),
                         (''projectId'', projectId),
                         (''description'', description),
                         (''timestamp'', Str stamp),
                         (''status'', Str ''pending'')])
         \<and> (if \<not> denied (localStorage w)
                \<and> quota_ok (localStorage w) (entries (localStorage w)) (queueKey now rnd) (JsonText job)
             then (\<exists>w'. addFileToQueue w now rnd stamp f projectId description = Some (True, w')
                    \<and> map_of (entries (localStorage w')) (queueKey now rnd) = Some (JsonText job)
                    \<and> (\<forall>k. k \<noteq> queueKey now rnd \<longrightarrow>
                          map_of (entries (localStorage w')) k = map_of (entries (localStorage w)) k)
                    \<and> (queueKey now rnd \<notin> fst ` set (entries (localStorage w)) \<longrightarrow>
                          entries (localStorage w') = entries (localStorage w)
                            @ [(queueKey now rnd, JsonText job)]))
             else addFileToQueue w now rnd stamp f projectId description = Some (False, w))))
   \<and> queueKey now rnd = ''file_queue_'' @ show_nat now @ ''_'' @ take 9 (drop 2 rnd)"
proof (intro conjI allI impI)
  assume "readAsDataURL w f = None"
  then show "addFileToQueue w now rnd stamp f projectId description = None"
    by (simp add: addFileToQueue_def)
next
  show "queueKey now rnd = ''file_queue_'' @ show_nat now @ ''_'' @ take 9 (drop 2 rnd)"
    by (simp add: queueKey_def substr_def)
next
  fix content
  assume r: "readAsDataURL w f = Some content"
  define data where "data = Obj [(''id'', Str (queueKey now rnd)),
                         (''file'', Obj [(''name'', Str (file_name f)),
                                        (''size'', Num (int (file_size f))),
                                        (''type'', Str (file_type f)),
                                        (''lastModified'', Num (file_lastModified f)),
                                        (''content'', Str content)]),
                         (''projectId'', projectId),
                         (''description'', if description = Undefined then Str [] else description),
                         (''timestamp'', Str stamp),
                         (''status'', Str ''pending'')]"
  have d: "fileData (queueKey now rnd) f content projectId
                (if description = Undefined then Str [] else description) stamp = data"
    by (simp add: fileData_def data_def)
  obtain job where j: "to_json data = Some job"
    unfolding data_def using to_json_Obj by blast
  have n: "data \<noteq> Null" by (simp add: data_def)
  have k: "job = Obj [(''id'', Str (queueKey now rnd)),
                         (''file'', Obj [(''name'', Str (file_name f)),
                                        (''size'', Num (int (file_size f))),
                                        (''type'', Str (file_type f)),
                                        (''lastModified'', Num (file_lastModified f)),
                                        (''content'', Str content)]),
                         (''projectId'', projectId),
                         (''description'', description),
                         (''timestamp'', Str stamp),
                         (''status'', Str ''pending'')]"
    if "is_json projectId \<and> is_json description"
  proof -
    from that have u: "description \<noteq> Undefined" by auto
    have "is_json data" using that u by (simp add: data_def)
    then have "to_json data = Some data" by (rule to_json_is_json)
    with j have "job = data" by simp
    then show ?thesis using u by (simp add: data_def)
  qed
  note c = addFileToQueue_cases [OF r d j n]
  from j k c
  show "\<exists>job.
           to_json (Obj [(''id'', Str (queueKey now rnd)),
                         (''file'', Obj [(''name'', Str (file_name f)),
                                        (''size'', Num (int (file_size f))),
                                        (''type'', Str (file_type f)),
                                        (''lastModified'', Num (file_lastModified f)),
                                        (''content'', Str content)]),
                         (''projectId'', projectId),
                         (''description'', if description = Undefined then Str [] else description),
                         (''timestamp'', Str stamp),
                         (''status'', Str ''pending'')]) = Some job
         \<and> (is_json projectId \<and> is_json description \<longrightarrow>
              job = Obj [(''id'', Str (queueKey now rnd)),
                         (''file'', Obj [(''name'', Str (file_name f)),
                                        (''size'', Num (int (file_size f))),
                                        (''type'', Str (file_type f)),
                                        (''lastModified'', Num (file_lastModified f)),
                                        (''content'', Str content)]),
                         (''projectId'', projectId),
                         (''description'', description),
                         (''timestamp'', Str stamp),
                         (''status'', Str ''pending'')])
         \<and> (if \<not> denied (localStorage w)
                \<and> quota_ok (localStorage w) (entries (localStorage w)) (queueKey now rnd) (JsonText job)
             then (\<exists>w'. addFileToQueue w now rnd stamp f projectId description = Some (True, w')
                    \<and> map_of (entries (localStorage w')) (queueKey now rnd) = Some (JsonText job)
                    \<and> (\<forall>k. k \<noteq> queueKey now rnd \<longrightarrow>
                          map_of (entries (localStorage w')) k = map_of (entries (localStorage w)) k)
                    \<and> (queueKey now rnd \<notin> fst ` set (entries (localStorage w)) \<longrightarrow>
                          entries (localStorage w') = entries (localStorage w)
                            @ [(queueKey now rnd, JsonText job)]))
             else addFileToQueue w now rnd stamp f projectId description = Some (False, w))"
    unfolding data_def by (intro exI [of _ job] conjI impI)
qed

lemmas eval_add = addFileToQueue_def saveToStorage_def setItem_def JSON_stringify_def
  stored_string_def example_world_def open_storage_def full_storage_def example_file_def
  queueKey_def substr_def fileData_def job_old_def queue_old_first_def job_new_def Let_def

text \<open>
  The claim as stated (every call appends a job, no existing entry is modified) fails: on a
  storage whose quota is used up the call returns \<^verbatim>\<open>false\<close> and stores nothing, and a call
  in the same millisecond with the same random suffix as an earlier one replaces the
  earlier job.
\<close>

theorem addFileToQueue_counterexample:
  "map_option fst (addFileToQueue (example_world (full_storage []) offline) 1704103200000
       ''0.k3j9x0p2qzz'' ''2024-01-01T10:00:00.000Z'' example_file (Str ''project-1'') (Str []))
     = Some False
   \<and> map_option (\<lambda>r. entries (localStorage (snd r)))
       (addFileToQueue (example_world (full_storage []) offline) 1704103200000
          ''0.k3j9x0p2qzz'' ''2024-01-01T10:00:00.000Z'' example_file (Str ''project-1'') (Str []))
     = Some []
   \<and> map_option (\<lambda>r. map fst (entries (localStorage (snd r))))
       (addFileToQueue (example_world (open_storage queue_old_first) offline) 1704103200000
          ''0.k3j9x0p2qzz'' ''2024-01-01T11:00:00.000Z'' example_file (Str ''project-2'') (Str []))
     = Some (map fst queue_old_first)
   \<and> map_option (\<lambda>r. map_of (entries (localStorage (snd r))) ''file_queue_1704103200000_k3j9x0p2q'')
       (addFileToQueue (example_world (open_storage queue_old_first) offline) 1704103200000
          ''0.k3j9x0p2qzz'' ''2024-01-01T11:00:00.000Z'' example_file (Str ''project-2'') (Str []))
     = Some (Some (JsonText (fileData ''file_queue_1704103200000_k3j9x0p2q'' example_file
                ''data:text/plain;base64,aGVsbG8='' (Str ''project-2'') (Str [])
                ''2024-01-01T11:00:00.000Z'')))"
  by (simp add: eval_add)

theorem addFileToQueue_stores_job_witness:
  "readAsDataURL (example_world (open_storage []) offline) example_file
       = Some ''data:text/plain;base64,aGVsbG8=''
   \<and> (\<exists>w'. addFileToQueue (example_world (open_storage []) offline) 1704103200000
               ''0.k3j9x0p2qzz'' ''2024-01-01T10:00:00.000Z'' example_file (Str ''project-1'') (Str [])
             = Some (True, w')
          \<and> entries (localStorage w')
              = [(''file_queue_1704103200000_k3j9x0p2q'',
                  JsonText
                    (Obj [(''id'', Str ''file_queue_1704103200000_k3j9x0p2q''),
                          (''file'', Obj [(''name'', Str ''notes.txt''),
                                         (''size'', Num 5),
                                         (''type'', Str ''text/plain''),
                                         (''lastModified'', Num 1704100000000),
                                         (''content'', Str ''data:text/plain;base64,aGVsbG8='')]),
                          (''projectId'', Str ''project-1''),
                          (''description'', Str []),
                          (''timestamp'', Str ''2024-01-01T10:00:00.000Z''),
                          (''status'', Str ''pending'')]))])
   \<and> (\<exists>w'. addFileToQueue (example_world (open_storage []) offline) 1704103200000
               ''0.k3j9x0p2qzz'' ''2024-01-01T10:00:00.000Z'' example_file Undefined Undefined
             = Some (True, w')
          \<and> entries (localStorage w')
              = [(''file_queue_1704103200000_k3j9x0p2q'',
                  JsonText
                    (Obj [(''id'', Str ''file_queue_1704103200000_k3j9x0p2q''),
                          (''file'', Obj [(''name'', Str ''notes.txt''),
                                         (''size'', Num 5),
                                         (''type'', Str ''text/plain''),
                                         (''lastModified'', Num 1704100000000),
                                         (''content'', Str ''data:text/plain;base64,aGVsbG8='')]),
                          (''description'', Str []),
                          (''timestamp'', Str ''2024-01-01T10:00:00.000Z''),
                          (''status'', Str ''pending'')]))])
   \<and> readAsDataURL (example_world (full_storage []) offline) example_file
       = Some ''data:text/plain;base64,aGVsbG8=''
   \<and> addFileToQueue (example_world (full_storage []) offline) 1704103200000
        ''0.k3j9x0p2qzz'' ''2024-01-01T10:00:00.000Z'' example_file (Str ''project-1'') (Str [])
       = Some (False, example_world (full_storage []) offline)"
proof -
  let ?w = "example_world (open_storage []) offline"
  let ?v = "example_world (full_storage []) offline"
  let ?stamp = "''2024-01-01T10:00:00.000Z''"
  have r: "readAsDataURL ?w example_file = Some ''data:text/plain;base64,aGVsbG8=''"
    by (simp add: example_world_def example_file_def)
  have r': "readAsDataURL ?v example_file = Some ''data:text/plain;base64,aGVsbG8=''"
    by (simp add: example_world_def example_file_def)
  have k: "queueKey 1704103200000 ''0.k3j9x0p2qzz'' = ''file_queue_1704103200000_k3j9x0p2q''"
    by (simp add: queueKey_def substr_def)
  have e: "entries (localStorage ?w) = []" "\<not> denied (localStorage ?w)"
    "quota_ok (localStorage ?w) = (\<lambda>es key t. True)"
    by (simp_all add: example_world_def open_storage_def)
  have e': "\<not> denied (localStorage ?v)" "quota_ok (localStorage ?v) = (\<lambda>es key t. False)"
    by (simp_all add: example_world_def full_storage_def)
  have f: "file_name example_file = ''notes.txt''" "file_size example_file = 5"
    "file_type example_file = ''text/plain''" "file_lastModified example_file = 1704100000000"
    by (simp_all add: example_file_def)
  note A = addFileToQueue_stores_job [of ?w example_file 1704103200000 "''0.k3j9x0p2qzz''" ?stamp
      "Str ''project-1''" "Str []", THEN conjunct2, THEN conjunct1, rule_format, OF r]
  note B = addFileToQueue_stores_job [of ?w example_file 1704103200000 "''0.k3j9x0p2qzz''" ?stamp
      Undefined Undefined, THEN conjunct2, THEN conjunct1, rule_format, OF r]
  note C = addFileToQueue_stores_job [of ?v example_file 1704103200000 "''0.k3j9x0p2qzz''" ?stamp
      "Str ''project-1''" "Str []", THEN conjunct2, THEN conjunct1, rule_format, OF r']
  have a: "\<exists>w'. addFileToQueue ?w 1704103200000 ''0.k3j9x0p2qzz'' ?stamp example_file
                 (Str ''project-1'') (Str []) = Some (True, w')
          \<and> entries (localStorage w')
              = [(''file_queue_1704103200000_k3j9x0p2q'',
                  JsonText
                    (Obj [(''id'', Str ''file_queue_1704103200000_k3j9x0p2q''),
                          (''file'', Obj [(''name'', Str ''notes.txt''),
                                         (''size'', Num 5),
                                         (''type'', Str ''text/plain''),
                                         (''lastModified'', Num 1704100000000),
                                         (''content'', Str ''data:text/plain;base64,aGVsbG8='')]),
                          (''projectId'', Str ''project-1''),
                          (''description'', Str []),
                          (''timestamp'', Str ''2024-01-01T10:00:00.000Z''),
                          (''status'', Str ''pending'')]))]"
    using A by (auto simp: k e f)
  have b: "\<exists>w'. addFileToQueue ?w 1704103200000 ''0.k3j9x0p2qzz'' ?stamp example_file
                 Undefined Undefined = Some (True, w')
          \<and> entries (localStorage w')
              = [(''file_queue_1704103200000_k3j9x0p2q'',
                  JsonText
                    (Obj [(''id'', Str ''file_queue_1704103200000_k3j9x0p2q''),
                          (''file'', Obj [(''name'', Str ''notes.txt''),
                                         (''size'', Num 5),
                                         (''type'', Str ''text/plain''),
                                         (''lastModified'', Num 1704100000000),
                                         (''content'', Str ''data:text/plain;base64,aGVsbG8='')]),
                          (''description'', Str []),
                          (''timestamp'', Str ''2024-01-01T10:00:00.000Z''),
                          (''status'', Str ''pending'')]))]"
    using B by (auto simp: k e f)
  have c: "addFileToQueue ?v 1704103200000 ''0.k3j9x0p2qzz'' ?stamp example_file
             (Str ''project-1'') (Str []) = Some (False, ?v)"
    using C by (auto simp: k e' f)
  from r a b r' c show ?thesis by (intro conjI)
qed

section \<open>Properties of the API client\<close>

lemma getAuthToken_flags [simp]:
  "getAuthToken (w\<lparr>isLoading := a, error := b\<rparr>) = getAuthToken w"
  by (simp add: getAuthToken_def)

lemma request_config_flags [simp]:
  "request_config (w\<lparr>isLoading := a, error := b\<rparr>) token url options = request_config w token url options"
  by (simp add: request_config_def)

lemma getAuthToken_not_denied: "getAuthToken w = Inr token \<Longrightarrow> \<not> denied (localStorage w)"
  by (auto simp: getAuthToken_def getItem_def split: if_splits)

text \<open>
  Claim C10. For a request made through \<^verbatim>\<open>makeRequest\<close> (the token could be read and
  \<^verbatim>\<open>fetch\<close> resolved with a response): status 401 removes \<^verbatim>\<open>auth_token\<close> from local
  storage, leaves every other entry, and throws the authentication error; status 403 throws
  the access-denied error and leaves local storage, and so the token, unchanged; and every
  response that is not ok ends in a thrown error, never in a returned value. One request
  was handed to \<^verbatim>\<open>fetch\<close>.
\<close>

theorem makeRequest_failed_response:
  assumes "getAuthToken w = Inr token"
      and "network w (sent w) (request_config w token url options) = Response r"
  shows "(status r = 401 \<longrightarrow>
            fst (makeRequest w url options)
              = Inl (Error ''Authentication required. Please log in again.'')
          \<and> map_of (entries (localStorage (snd (makeRequest w url options)))) ''auth_token'' = None
          \<and> (\<forall>k. k \<noteq> ''auth_token'' \<longrightarrow>
                map_of (entries (localStorage (snd (makeRequest w url options)))) k
                  = map_of (entries (localStorage w)) k))
       \<and> (status r = 403 \<longrightarrow>
            fst (makeRequest w url options)
              = Inl (Error ''Access denied. You do not have permission to perform this action.'')
          \<and> localStorage (snd (makeRequest w url options)) = localStorage w)
       \<and> (\<not> ok r \<longrightarrow> (\<exists>e. fst (makeRequest w url options) = Inl e))
       \<and> sent (snd (makeRequest w url options)) = sent w @ [request_config w token url options]"
proof -
  have nd: "\<not> denied (localStorage w)" using assms(1) by (rule getAuthToken_not_denied)
  have a: "status r = 401 \<longrightarrow>
            fst (makeRequest w url options)
              = Inl (Error ''Authentication required. Please log in again.'')
          \<and> map_of (entries (localStorage (snd (makeRequest w url options)))) ''auth_token'' = None
          \<and> (\<forall>k. k \<noteq> ''auth_token'' \<longrightarrow>
                map_of (entries (localStorage (snd (makeRequest w url options)))) k
                  = map_of (entries (localStorage w)) k)"
    using assms nd
    by (simp add: makeRequest_def makeRequest_try_def fetch_def ok_def removeItem_def delete_conv')
  have b: "status r = 403 \<longrightarrow>
            fst (makeRequest w url options)
              = Inl (Error ''Access denied. You do not have permission to perform this action.'')
          \<and> localStorage (snd (makeRequest w url options)) = localStorage w"
    using assms by (simp add: makeRequest_def makeRequest_try_def fetch_def ok_def)
  have c: "\<not> ok r \<longrightarrow> (\<exists>e. fst (makeRequest w url options) = Inl e)"
    using assms nd
    by (simp add: makeRequest_def makeRequest_try_def fetch_def removeItem_def)
  have d: "sent (snd (makeRequest w url options)) = sent w @ [request_config w token url options]"
    using assms nd
    by (simp add: makeRequest_def makeRequest_try_def fetch_def removeItem_def
        split: option.splits sum.splits)
  show ?thesis using a b c d by blast
qed

lemmas eval_request = getAuthToken_def getItem_def example_world_def token_storage_def
  open_storage_def answering_def unauthorized_def forbidden_def request_config_def
  post_options_def

theorem makeRequest_failed_response_witness:
  "getAuthToken (example_world token_storage (answering unauthorized))
     = Inr (Some (RawText ''eyJhbGciOi.eyJ1c2VyIjo.c2lnbmF0dXJl''))
   \<and> status unauthorized = 401 \<and> \<not> ok unauthorized
   \<and> fst (makeRequest (example_world token_storage (answering unauthorized)) ''/clients/'' post_options)
       = Inl (Error ''Authentication required. Please log in again.'')
   \<and> map_of (entries (localStorage (snd (makeRequest
          (example_world token_storage (answering unauthorized)) ''/clients/'' post_options))))
        ''auth_token'' = None
   \<and> getAuthToken (example_world token_storage (answering forbidden))
     = Inr (Some (RawText ''eyJhbGciOi.eyJ1c2VyIjo.c2lnbmF0dXJl''))
   \<and> status forbidden = 403
   \<and> fst (makeRequest (example_world token_storage (answering forbidden)) ''/clients/'' post_options)
       = Inl (Error ''Access denied. You do not have permission to perform this action.'')
   \<and> localStorage (snd (makeRequest (example_world token_storage (answering forbidden))
          ''/clients/'' post_options)) = token_storage"
proof -
  let ?t = "Some (RawText ''eyJhbGciOi.eyJ1c2VyIjo.c2lnbmF0dXJl'')"
  let ?u = "example_world token_storage (answering unauthorized)"
  let ?f = "example_world token_storage (answering forbidden)"
  have t1: "getAuthToken ?u = Inr ?t" by (simp add: eval_request)
  have n1: "network ?u (sent ?u) (request_config ?u ?t ''/clients/'' post_options)
              = Response unauthorized"
    by (simp add: example_world_def answering_def)
  have s1: "status unauthorized = 401" "\<not> ok unauthorized"
    by (simp_all add: unauthorized_def ok_def)
  have t2: "getAuthToken ?f = Inr ?t" by (simp add: eval_request)
  have n2: "network ?f (sent ?f) (request_config ?f ?t ''/clients/'' post_options)
              = Response forbidden"
    by (simp add: example_world_def answering_def)
  have s2: "status forbidden = 403" by (simp add: forbidden_def)
  have l2: "localStorage ?f = token_storage" by (simp add: example_world_def)
  show ?thesis
    using t1 s1 t2 s2 l2 makeRequest_failed_response [OF t1 n1]
      makeRequest_failed_response [OF t2 n2]
    by simp
qed

section \<open>Properties of the file uploader\<close>









section \<open>Properties of the named REST actions\<close>

lemma capture_click_keeps: "capture_click user drawn sigs = sigs"
  by (simp add: capture_click_def signaturePadRef_def)

lemma unsigned_submit_calls:
  "fs_calls (handleSignatureSubmit answer st changeRequest user initial_signatureData stamp)
     = fs_calls st"
  by (simp add: handleSignatureSubmit_def initial_signatureData_def signatureKey_def field_def)

lemma click_step_keeps:
  "sig_data sf = initial_signatureData \<Longrightarrow>
   sig_data (click_step answer changeRequest user sf c) = initial_signatureData
   \<and> fs_calls (reducer_state (click_step answer changeRequest user sf c))
       = fs_calls (reducer_state sf)"
  by (cases c) (simp_all add: capture_click_keeps unsigned_submit_calls)

lemma clicks_keep:
  "sig_data sf = initial_signatureData \<Longrightarrow>
   sig_data (foldl (click_step answer changeRequest user) sf clicks) = initial_signatureData
   \<and> fs_calls (reducer_state (foldl (click_step answer changeRequest user) sf clicks))
       = fs_calls (reducer_state sf)"
proof (induction clicks arbitrary: sf)
  case Nil
  then show ?case by simp
next
  case (Cons c clicks)
  from click_step_keeps [OF Cons.prems, of answer changeRequest user c]
  have s: "sig_data (click_step answer changeRequest user sf c) = initial_signatureData"
    and k: "fs_calls (reducer_state (click_step answer changeRequest user sf c))
              = fs_calls (reducer_state sf)"
    by simp_all
  from Cons.IH [OF s] k show ?case by simp
qed

lemma generateDocument_calls:
  "fs_calls (generateDocument answer st handoverId projectId)
     = (if truthy handoverId
        then fs_calls st
               @ [\<lparr>call_url = ''/api/pilot-handover/'' @ js_String handoverId
                                @ ''/generate_handover_document/'',
                    call_method = ''POST'', call_body = None\<rparr>]
        else fs_calls st)"
  by (auto simp: generateDocument_def generate_call_def Let_def split: sum.splits option.splits)

text \<open>
  Claim C7, where the code falls short of it. The handler of \<^verbatim>\<open>Sign Document\<close> holds the
  POST to \<^verbatim>\<open>/api/change-requests/<id>/sign_change_request/\<close>, but the form never gets to
  it: the click on \<^verbatim>\<open>Capture Signature\<close> fails on the undeclared \<^verbatim>\<open>signaturePadRef\<close>, so
  no signature is ever stored, and the handler stops at \<^verbatim>\<open>Please provide a signature.\<close>
  Whatever the user clicks, in whatever order, for whatever change request, user and
  answers of the server, the form makes no call and holds no signature; for a saved change
  request and a staff user who draws, captures and signs, the form ends with that message.
\<close>

theorem sign_document_never_posts:
  "fs_calls (reducer_state (clicks_after answer changeRequest user clicks new_signing_form)) = []
   \<and> sig_data (clicks_after answer changeRequest user clicks new_signing_form)
       = Obj [(''clientSignature'', Null), (''providerSignature'', Null)]
   \<and> truthy (field saved_change_request ''id'')
   \<and> reducer_state
        (clicks_after resolving saved_change_request staff_user
           [CaptureSignature ''data:image/png;base64,iVBORw0KGgo='',
            SignDocument ''2024-01-01T10:00:00.000Z''] new_signing_form)
       = \<lparr>fs_loading = False, fs_error = Some ''Please provide a signature.'', fs_success = None,
          fs_calls = [], fs_downloads = []\<rparr>"
proof -
  have i: "sig_data new_signing_form = initial_signatureData"
    by (simp add: new_signing_form_def)
  have c: "fs_calls (reducer_state new_signing_form) = []"
    by (simp add: new_signing_form_def)
  have a: "fs_calls (reducer_state (clicks_after answer changeRequest user clicks new_signing_form)) = []"
    using clicks_keep [OF i, of answer changeRequest user clicks] c
    by (simp add: clicks_after_def)
  have b: "sig_data (clicks_after answer changeRequest user clicks new_signing_form)
       = Obj [(''clientSignature'', Null), (''providerSignature'', Null)]"
    using clicks_keep [OF i, of answer changeRequest user clicks]
    by (simp add: clicks_after_def initial_signatureData_def)
  have t: "truthy (field saved_change_request ''id'')"
    by (simp add: field_def saved_change_request_def)
  have d: "reducer_state
        (clicks_after resolving saved_change_request staff_user
           [CaptureSignature ''data:image/png;base64,iVBORw0KGgo='',
            SignDocument ''2024-01-01T10:00:00.000Z''] new_signing_form)
       = \<lparr>fs_loading = False, fs_error = Some ''Please provide a signature.'', fs_success = None,
          fs_calls = [], fs_downloads = []\<rparr>"
    by (simp add: clicks_after_def new_signing_form_def capture_click_keeps
        handleSignatureSubmit_def initial_signatureData_def signatureKey_def field_def
        saved_change_request_def staff_user_def)
  from a b t d show ?thesis by (intro conjI)
qed

section \<open>Properties of the client intake form\<close>

lemma makeRequest_sent:
  "getAuthToken w = Inr token \<Longrightarrow>
   sent (snd (makeRequest w url options)) = sent w @ [request_config w token url options]"
  by (auto simp: makeRequest_def makeRequest_try_def fetch_def getAuthToken_def getItem_def
      removeItem_def split: prod.splits sum.splits fetch_outcome.splits option.splits if_splits)

lemma makeRequest_no_token:
  "getAuthToken w = Inl e \<Longrightarrow> sent (snd (makeRequest w url options)) = sent w"
  by (simp add: makeRequest_def makeRequest_try_def)

lemma makeRequest_denied:
  "denied (localStorage (snd (makeRequest w url options))) = denied (localStorage w)"
  by (auto simp: makeRequest_def makeRequest_try_def fetch_def removeItem_def
      split: prod.splits sum.splits fetch_outcome.splits option.splits if_splits)

lemma makeRequest_alerts:
  "alerts (snd (makeRequest w url options)) = alerts w"
  by (auto simp: makeRequest_def makeRequest_try_def fetch_def removeItem_def
      split: prod.splits sum.splits fetch_outcome.splits option.splits if_splits)

lemma makeRequest_ok_not_denied:
  "fst (makeRequest w url options) = Inr v \<Longrightarrow> \<not> denied (localStorage w)"
  by (auto simp: makeRequest_def makeRequest_try_def getAuthToken_def getItem_def
      split: prod.splits sum.splits if_splits)

lemma saveOffline_sent [simp]: "sent (snd (saveOffline w key v)) = sent w"
  by (simp add: saveOffline_def split: prod.splits)

lemma saveOffline_alerts [simp]: "alerts (snd (saveOffline w key v)) = alerts w"
  by (simp add: saveOffline_def split: prod.splits)

lemma alert_fields [simp]:
  "sent (alert w m) = sent w" "localStorage (alert w m) = localStorage w"
  "alerts (alert w m) = alerts w @ [m]"
  by (simp_all add: alert_def)

lemma submitClientIntake_sent:
  "getAuthToken w = Inr token \<Longrightarrow>
   iso_date_part (field formData ''pilot_start_date'') = Inr sd \<Longrightarrow>
   iso_date_part (field formData ''pilot_end_date'') = Inr ed \<Longrightarrow>
   sent (snd (submitClientIntake w formData))
     = sent w @ [request_config w token ''/clients/''
                   \<lparr>opt_method = Some ''POST'',
                    opt_body = JSON_stringify (clientData w formData sd ed),
                    opt_headers = []\<rparr>]"
  by (simp add: submitClientIntake_def makeRequest_sent)

lemma submitClientIntake_alerts: "alerts (snd (submitClientIntake w formData)) = alerts w"
  by (simp add: submitClientIntake_def makeRequest_alerts split: sum.splits)

lemma submitClientIntake_denied:
  "denied (localStorage (snd (submitClientIntake w formData))) = denied (localStorage w)"
  by (simp add: submitClientIntake_def makeRequest_denied split: sum.splits)

lemma submitClientIntake_ok_not_denied:
  "fst (submitClientIntake w formData) = Inr v \<Longrightarrow> \<not> denied (localStorage w)"
  by (auto simp: submitClientIntake_def split: sum.splits dest: makeRequest_ok_not_denied)

lemma onSubmit_try_sent:
  "sent (snd (onSubmit_try w data)) =
     (if missingFields data \<noteq> [] then sent w else sent (snd (submitClientIntake w data)))"
  by (simp add: onSubmit_try_def split_beta split: sum.splits)

lemma onSubmit_sent: "sent (onSubmit w data) = sent (snd (onSubmit_try w data))"
  by (simp add: onSubmit_def split_beta split: option.splits)

lemma takeWhile_date:
  "CHR ''T'' \<notin> set d \<Longrightarrow> takeWhile (\<lambda>c. c \<noteq> CHR ''T'') (d @ CHR ''T'' # rest) = d"
  by (induction d) auto

text \<open>
  Claim C6, as the code has it. The required fields are \<^verbatim>\<open>school_name\<close>,
  \<^verbatim>\<open>contact_person\<close>, \<^verbatim>\<open>email\<close>, \<^verbatim>\<open>project_type\<close>, \<^verbatim>\<open>project_purpose\<close>,
  \<^verbatim>\<open>pilot_scope_features\<close> and \<^verbatim>\<open>timeline_preference\<close>; one is missing when its value
  is empty (falsy) or an empty list. If any is missing, submission fails with an error that
  names exactly the missing ones, in that order, and no request is sent. Otherwise, when
  the stored token can be read and each of the two dates is empty or a valid date, one
  POST goes to \<^verbatim>\<open>/clients/\<close> whose body is the JSON text of the object written out
  below: the organization (name, type \<^verbatim>\<open>educational\<close>, email) and the twenty-two fields
  of the form under their own names, with \<^verbatim>\<open>number_of_students\<close> and
  \<^verbatim>\<open>number_of_staff\<close> passed through \<^verbatim>\<open>parseInt\<close> and \<^verbatim>\<open>token_commitment_fee\<close>
  through \<^verbatim>\<open>parseFloat\<close> (\<^verbatim>\<open>null\<close> when empty), and each date cut to the part of its
  ISO string before the \<^verbatim>\<open>T\<close> (left out when no date was picked).
\<close>

theorem intake_submit_validates_and_posts:
  "missingFields data =
      filter (\<lambda>k. \<not> truthy (field data k) \<or> field data k = Arr [])
        [''school_name'', ''contact_person'', ''email'', ''project_type'',
         ''project_purpose'', ''pilot_scope_features'', ''timeline_preference'']
   \<and> (missingFields data \<noteq> [] \<longrightarrow>
         sent (onSubmit w data) = sent w
       \<and> fst (onSubmit_try w data)
           = Some (Error (''Please fill in all required fields: '' @ join (missingFields data) '', '')))
   \<and> (\<forall>token sd ed.
         missingFields data = [] \<and> getAuthToken w = Inr token
         \<and> iso_date_part (field data ''pilot_start_date'') = Inr sd
         \<and> iso_date_part (field data ''pilot_end_date'') = Inr ed \<longrightarrow>
         (\<exists>body.
            to_json
              (Obj [(''organization'',
                       Obj [(''name'', field data ''school_name''),
                            (''organization_type'', Str ''educational''),
                            (''email'', field data ''email'')]),
                    (''school_name'', field data ''school_name''),
                    (''address'', field data ''address''),
                    (''contact_person'', field data ''contact_person''),
                    (''role_position'', field data ''role_position''),
                    (''phone_whatsapp'', field data ''phone_whatsapp''),
                    (''email'', field data ''email''),
                    (''current_website'', field data ''current_website''),
                    (''number_of_students'',
                       if truthy (field data ''number_of_students'')
                       then parseInt w (field data ''number_of_students'') else Null),
                    (''number_of_staff'',
                       if truthy (field data ''number_of_staff'')
                       then parseInt w (field data ''number_of_staff'') else Null),
                    (''project_type'', field data ''project_type''),
                    (''project_purpose'', field data ''project_purpose''),
                    (''pilot_scope_features'', field data ''pilot_scope_features''),
                    (''pilot_start_date'', sd),
                    (''pilot_end_date'', ed),
                    (''timeline_preference'', field data ''timeline_preference''),
                    (''design_preferences'', field data ''design_preferences''),
                    (''logo_colors'', field data ''logo_colors''),
                    (''content_availability'', field data ''content_availability''),
                    (''maintenance_plan'', field data ''maintenance_plan''),
                    (''token_commitment_fee'',
                       if truthy (field data ''token_commitment_fee'')
                       then parseFloat w (field data ''token_commitment_fee'') else Null),
                    (''additional_notes'', field data ''additional_notes''),
                    (''acknowledgment'', field data ''acknowledgment'')]) = Some body
            \<and> sent (onSubmit w data)
                = sent w @ [\<lparr>req_url = API_BASE_URL w @ ''/clients/'',
                              req_method = Some ''POST'',
                              req_headers = spread [(''Content-Type'', HStr ''application/json'')]
                                              (auth_headers token),
                              req_body = TextBody (JsonText body)\<rparr>])
         \<and> (field data ''pilot_start_date'' = Null \<or> field data ''pilot_start_date'' = Undefined
                \<longrightarrow> sd = Undefined)
         \<and> (field data ''pilot_end_date'' = Null \<or> field data ''pilot_end_date'' = Undefined
                \<longrightarrow> ed = Undefined)
         \<and> (\<forall>d rest. field data ''pilot_start_date'' = DateV (Some (d @ CHR ''T'' # rest))
                \<and> CHR ''T'' \<notin> set d \<longrightarrow> sd = Str d)
         \<and> (\<forall>d rest. field data ''pilot_end_date'' = DateV (Some (d @ CHR ''T'' # rest))
                \<and> CHR ''T'' \<notin> set d \<longrightarrow> ed = Str d))"
proof -
  have a: "missingFields data =
      filter (\<lambda>k. \<not> truthy (field data k) \<or> field data k = Arr [])
        [''school_name'', ''contact_person'', ''email'', ''project_type'',
         ''project_purpose'', ''pilot_scope_features'', ''timeline_preference'']"
    by (simp add: missingFields_def requiredFields_def is_missing_def)
  have b: "missingFields data \<noteq> [] \<longrightarrow>
         sent (onSubmit w data) = sent w
       \<and> fst (onSubmit_try w data)
           = Some (Error (''Please fill in all required fields: '' @ join (missingFields data) '', ''))"
    by (simp add: onSubmit_sent onSubmit_try_sent) (simp add: onSubmit_try_def)
  have c: "\<exists>body. to_json (clientData w data sd ed) = Some body
            \<and> sent (onSubmit w data)
                = sent w @ [\<lparr>req_url = API_BASE_URL w @ ''/clients/'',
                              req_method = Some ''POST'',
                              req_headers = spread [(''Content-Type'', HStr ''application/json'')]
                                              (auth_headers token),
                              req_body = TextBody (JsonText body)\<rparr>]"
    if h: "missingFields data = []" "getAuthToken w = Inr token"
       "iso_date_part (field data ''pilot_start_date'') = Inr sd"
       "iso_date_part (field data ''pilot_end_date'') = Inr ed" for token sd ed
  proof -
    obtain body where body: "to_json (clientData w data sd ed) = Some body"
      unfolding clientData_def using to_json_Obj by blast
    have "sent (onSubmit w data) = sent (snd (submitClientIntake w data))"
      using h(1) by (simp add: onSubmit_sent onSubmit_try_sent)
    also have "\<dots> = sent w @ [request_config w token ''/clients/''
                   \<lparr>opt_method = Some ''POST'',
                    opt_body = JSON_stringify (clientData w data sd ed),
                    opt_headers = []\<rparr>]"
      using h by (simp add: submitClientIntake_sent)
    finally show ?thesis
      using body by (simp add: request_config_def JSON_stringify_def spread_def)
  qed
  have e: "sd = Str d"
    if "iso_date_part v = Inr sd" "v = DateV (Some (d @ CHR ''T'' # rest))" "CHR ''T'' \<notin> set d"
    for v sd d rest
    using that by (simp add: takeWhile_date)
  have f: "sd = Undefined"
    if "iso_date_part v = Inr sd" "v = Null \<or> v = Undefined" for v sd
    using that by auto
  show ?thesis
  proof (intro conjI allI impI)
    show "missingFields data =
      filter (\<lambda>k. \<not> truthy (field data k) \<or> field data k = Arr [])
        [''school_name'', ''contact_person'', ''email'', ''project_type'',
         ''project_purpose'', ''pilot_scope_features'', ''timeline_preference'']"
      by (rule a)
  next
    assume "missingFields data \<noteq> []"
    then show "sent (onSubmit w data) = sent w" using b by simp
  next
    assume "missingFields data \<noteq> []"
    then show "fst (onSubmit_try w data)
           = Some (Error (''Please fill in all required fields: '' @ join (missingFields data) '', ''))"
      using b by simp
  next
    fix token sd ed
    assume h: "missingFields data = [] \<and> getAuthToken w = Inr token
         \<and> iso_date_part (field data ''pilot_start_date'') = Inr sd
         \<and> iso_date_part (field data ''pilot_end_date'') = Inr ed"
    from h c [of token sd ed] show "\<exists>body.
            to_json
              (Obj [(''organization'',
                       Obj [(''name'', field data ''school_name''),
                            (''organization_type'', Str ''educational''),
                            (''email'', field data ''email'')]),
                    (''school_name'', field data ''school_name''),
                    (''address'', field data ''address''),
                    (''contact_person'', field data ''contact_person''),
                    (''role_position'', field data ''role_position''),
                    (''phone_whatsapp'', field data ''phone_whatsapp''),
                    (''email'', field data ''email''),
                    (''current_website'', field data ''current_website''),
                    (''number_of_students'',
                       if truthy (field data ''number_of_students'')
                       then parseInt w (field data ''number_of_students'') else Null),
                    (''number_of_staff'',
                       if truthy (field data ''number_of_staff'')
                       then parseInt w (field data ''number_of_staff'') else Null),
                    (''project_type'', field data ''project_type''),
                    (''project_purpose'', field data ''project_purpose''),
                    (''pilot_scope_features'', field data ''pilot_scope_features''),
                    (''pilot_start_date'', sd),
                    (''pilot_end_date'', ed),
                    (''timeline_preference'', field data ''timeline_preference''),
                    (''design_preferences'', field data ''design_preferences''),
                    (''logo_colors'', field data ''logo_colors''),
                    (''content_availability'', field data ''content_availability''),
                    (''maintenance_plan'', field data ''maintenance_plan''),
                    (''token_commitment_fee'',
                       if truthy (field data ''token_commitment_fee'')
                       then parseFloat w (field data ''token_commitment_fee'') else Null),
                    (''additional_notes'', field data ''additional_notes''),
                    (''acknowledgment'', field data ''acknowledgment'')]) = Some body
            \<and> sent (onSubmit w data)
                = sent w @ [\<lparr>req_url = API_BASE_URL w @ ''/clients/'',
                              req_method = Some ''POST'',
                              req_headers = spread [(''Content-Type'', HStr ''application/json'')]
                                              (auth_headers token),
                              req_body = TextBody (JsonText body)\<rparr>]"
      unfolding clientData_def organizationData_def by blast
  next
    fix token sd ed
    assume h: "missingFields data = [] \<and> getAuthToken w = Inr token
         \<and> iso_date_part (field data ''pilot_start_date'') = Inr sd
         \<and> iso_date_part (field data ''pilot_end_date'') = Inr ed"
    assume "field data ''pilot_start_date'' = Null \<or> field data ''pilot_start_date'' = Undefined"
    with h f show "sd = Undefined" by blast
  next
    fix token sd ed
    assume h: "missingFields data = [] \<and> getAuthToken w = Inr token
         \<and> iso_date_part (field data ''pilot_start_date'') = Inr sd
         \<and> iso_date_part (field data ''pilot_end_date'') = Inr ed"
    assume "field data ''pilot_end_date'' = Null \<or> field data ''pilot_end_date'' = Undefined"
    with h f show "ed = Undefined" by blast
  next
    fix token sd ed d rest
    assume h: "missingFields data = [] \<and> getAuthToken w = Inr token
         \<and> iso_date_part (field data ''pilot_start_date'') = Inr sd
         \<and> iso_date_part (field data ''pilot_end_date'') = Inr ed"
    assume "field data ''pilot_start_date'' = DateV (Some (d @ CHR ''T'' # rest)) \<and> CHR ''T'' \<notin> set d"
    with h e show "sd = Str d" by blast
  next
    fix token sd ed d rest
    assume h: "missingFields data = [] \<and> getAuthToken w = Inr token
         \<and> iso_date_part (field data ''pilot_start_date'') = Inr sd
         \<and> iso_date_part (field data ''pilot_end_date'') = Inr ed"
    assume "field data ''pilot_end_date'' = DateV (Some (d @ CHR ''T'' # rest)) \<and> CHR ''T'' \<notin> set d"
    with h e show "ed = Str d" by blast
  qed
qed

lemma onSubmit_try_alerts:
  "alerts (snd (onSubmit_try w data)) =
     (case fst (onSubmit_try w data) of
        None \<Rightarrow> alerts w @ [''Intake form submitted successfully!'']
      | Some err \<Rightarrow> alerts w)"
  by (simp add: onSubmit_try_def split_beta submitClientIntake_alerts split: sum.splits)

lemma onSubmit_try_result:
  "fst (onSubmit_try w data) =
     (if missingFields data \<noteq> []
      then Some (Error (''Please fill in all required fields: '' @ join (missingFields data) '', ''))
      else (case fst (submitClientIntake w data) of Inl e \<Rightarrow> Some e | Inr v \<Rightarrow> None))"
  by (simp add: onSubmit_try_def split_beta split: sum.splits)

lemma onSubmit_try_cleared:
  "fst (onSubmit_try w data) = None \<Longrightarrow>
   map_of (entries (localStorage (snd (onSubmit_try w data)))) ''client_intake_form'' = None"
proof -
  assume n: "fst (onSubmit_try w data) = None"
  then have m: "missingFields data = []" by (auto simp: onSubmit_try_result split: if_splits)
  from n obtain v where v: "fst (submitClientIntake w data) = Inr v"
    by (auto simp: onSubmit_try_result split: if_splits sum.splits)
  let ?w1 = "snd (submitClientIntake w data)"
  have "\<not> denied (localStorage w)" using v by (rule submitClientIntake_ok_not_denied)
  then have nd: "\<not> denied (localStorage ?w1)" by (simp add: submitClientIntake_denied)
  have "snd (onSubmit_try w data)
          = alert (snd (saveOffline ?w1 ''client_intake_form'' Null)) ''Intake form submitted successfully!''"
    using m v by (simp add: onSubmit_try_def split_beta split: sum.splits)
  then show ?thesis
    using nd by (simp add: saveOffline_storage saveToStorage_Null delete_conv')
qed

text \<open>
  Claim C5, as the code has it. When the submit fails (a required field is missing, or
  \<^verbatim>\<open>submitClientIntake\<close> throws) the handler calls \<^verbatim>\<open>saveOffline\<close> with the entered
  data under the key \<^verbatim>\<open>client_intake_form\<close> and shows the failure message; the data
  is in local storage afterwards when storage accepts the write, and storage is unchanged
  when it refuses. When the submit succeeds the success message is shown and no entry is
  left under that key.
\<close>

theorem intake_submit_offline_copy:
  "(\<forall>err. fst (onSubmit_try w data) = Some err \<longrightarrow>
       alerts (onSubmit w data)
         = alerts w @ [''Form submission failed: '' @ message err
                        @ ''. Data saved offline for later sync.'']
     \<and> (data \<noteq> Null \<and> \<not> denied (localStorage (snd (onSubmit_try w data)))
         \<and> quota_ok (localStorage (snd (onSubmit_try w data)))
              (entries (localStorage (snd (onSubmit_try w data)))) ''client_intake_form''
              (stored_string (JSON_stringify data)) \<longrightarrow>
           map_of (entries (localStorage (onSubmit w data))) ''client_intake_form''
             = Some (stored_string (JSON_stringify data)))
     \<and> (data \<noteq> Null
         \<and> (denied (localStorage (snd (onSubmit_try w data)))
            \<or> \<not> quota_ok (localStorage (snd (onSubmit_try w data)))
                 (entries (localStorage (snd (onSubmit_try w data)))) ''client_intake_form''
                 (stored_string (JSON_stringify data))) \<longrightarrow>
           localStorage (onSubmit w data) = localStorage (snd (onSubmit_try w data))))
   \<and> (fst (onSubmit_try w data) = None \<longrightarrow>
         alerts (onSubmit w data) = alerts w @ [''Intake form submitted successfully!'']
       \<and> map_of (entries (localStorage (onSubmit w data))) ''client_intake_form'' = None)
   \<and> (missingFields data \<noteq> [] \<longrightarrow>
         fst (onSubmit_try w data)
           = Some (Error (''Please fill in all required fields: '' @ join (missingFields data) '', '')))
   \<and> (\<forall>e. missingFields data = [] \<and> fst (submitClientIntake w data) = Inl e \<longrightarrow>
         fst (onSubmit_try w data) = Some e)
   \<and> (\<forall>v. missingFields data = [] \<and> fst (submitClientIntake w data) = Inr v \<longrightarrow>
         fst (onSubmit_try w data) = None)"
proof -
  let ?w1 = "snd (onSubmit_try w data)"
  let ?ls = "localStorage ?w1"
  let ?k = "''client_intake_form''"
  let ?t = "stored_string (JSON_stringify data)"
  have fail: "onSubmit w data
      = alert (snd (saveOffline ?w1 ?k data))
          (''Form submission failed: '' @ message err @ ''. Data saved offline for later sync.'')"
    if "fst (onSubmit_try w data) = Some err" for err
    using that by (simp add: onSubmit_def split_beta split: option.splits)
  have a1: "alerts (onSubmit w data)
         = alerts w @ [''Form submission failed: '' @ message err
                        @ ''. Data saved offline for later sync.'']"
    if e: "fst (onSubmit_try w data) = Some err" for err
    using onSubmit_try_alerts [of w data] e by (simp add: fail [OF e])
  have a2: "map_of (entries (localStorage (onSubmit w data))) ?k = Some ?t"
    if e: "fst (onSubmit_try w data) = Some err" and "data \<noteq> Null" "\<not> denied ?ls"
      "quota_ok ?ls (entries ?ls) ?k ?t" for err
    using that
    by (simp add: fail [OF e] saveOffline_storage saveToStorage_def setItem_def map_of_update)
  have a3: "localStorage (onSubmit w data) = ?ls"
    if e: "fst (onSubmit_try w data) = Some err" and "data \<noteq> Null"
      "denied ?ls \<or> \<not> quota_ok ?ls (entries ?ls) ?k ?t" for err
    using that
    by (auto simp: fail [OF e] saveOffline_storage saveToStorage_def setItem_def)
  have b: "alerts (onSubmit w data) = alerts w @ [''Intake form submitted successfully!'']
       \<and> map_of (entries (localStorage (onSubmit w data))) ?k = None"
    if n: "fst (onSubmit_try w data) = None"
  proof -
    have "onSubmit w data = ?w1" using n by (simp add: onSubmit_def split_beta)
    then show ?thesis
      using onSubmit_try_alerts [of w data] onSubmit_try_cleared [OF n] n by simp
  qed
  have c: "missingFields data \<noteq> [] \<longrightarrow>
         fst (onSubmit_try w data)
           = Some (Error (''Please fill in all required fields: '' @ join (missingFields data) '', ''))"
    by (simp add: onSubmit_try_result)
  have d: "\<forall>e. missingFields data = [] \<and> fst (submitClientIntake w data) = Inl e \<longrightarrow>
         fst (onSubmit_try w data) = Some e"
    by (simp add: onSubmit_try_result)
  have e: "\<forall>v. missingFields data = [] \<and> fst (submitClientIntake w data) = Inr v \<longrightarrow>
         fst (onSubmit_try w data) = None"
    by (simp add: onSubmit_try_result)
  have a: "\<forall>err. fst (onSubmit_try w data) = Some err \<longrightarrow>
       alerts (onSubmit w data)
         = alerts w @ [''Form submission failed: '' @ message err
                        @ ''. Data saved offline for later sync.'']
     \<and> (data \<noteq> Null \<and> \<not> denied ?ls \<and> quota_ok ?ls (entries ?ls) ?k ?t \<longrightarrow>
           map_of (entries (localStorage (onSubmit w data))) ?k = Some ?t)
     \<and> (data \<noteq> Null \<and> (denied ?ls \<or> \<not> quota_ok ?ls (entries ?ls) ?k ?t) \<longrightarrow>
           localStorage (onSubmit w data) = ?ls)"
  proof (intro allI impI conjI)
    fix err assume e: "fst (onSubmit_try w data) = Some err"
    show "alerts (onSubmit w data)
         = alerts w @ [''Form submission failed: '' @ message err
                        @ ''. Data saved offline for later sync.'']"
      by (rule a1 [OF e])
    show "map_of (entries (localStorage (onSubmit w data))) ?k = Some ?t"
      if "data \<noteq> Null \<and> \<not> denied ?ls \<and> quota_ok ?ls (entries ?ls) ?k ?t"
      using that a2 [OF e] by simp
    show "localStorage (onSubmit w data) = ?ls"
      if "data \<noteq> Null \<and> (denied ?ls \<or> \<not> quota_ok ?ls (entries ?ls) ?k ?t)"
      using that a3 [OF e] by simp
  qed
  have b': "fst (onSubmit_try w data) = None \<longrightarrow>
         alerts (onSubmit w data) = alerts w @ [''Intake form submitted successfully!'']
       \<and> map_of (entries (localStorage (onSubmit w data))) ?k = None"
    using b by simp
  from a b' c d e show ?thesis by (intro conjI)
qed


lemmas eval_submit = onSubmit_def onSubmit_try_def submitClientIntake_def makeRequest_def
  makeRequest_try_def getAuthToken_def getItem_def setItem_def removeItem_def fetch_def
  request_config_def spread_def auth_headers_def saveOffline_def saveToStorage_def
  JSON_stringify_def stored_string_def alert_def field_def missingFields_def requiredFields_def
  is_missing_def clientData_def organizationData_def example_world_def open_storage_def
  full_storage_def denied_storage_def token_storage_def answering_def offline_def created_def
  ok_def JSON_parse_def complete_form_def incomplete_form_def example_data_def Error_def
  SecurityError_def QuotaExceededError_def Let_def

lemma restored_form_value:
  "restored_form =
     Obj [(''school_name'', Str ''Hilltop School''), (''address'', Str ''1 Hill Road''),
          (''contact_person'', Str ''A. Mensah''), (''email'', Str ''office@hilltop.example''),
          (''number_of_students'', Str ''350''), (''number_of_staff'', Str []),
          (''project_type'', Arr [Str ''mobile_app'']),
          (''project_purpose'', Arr [Str ''enhance_communication'']),
          (''pilot_scope_features'', Arr [Str ''gradebook'', Str ''data_export'']),
          (''pilot_start_date'', Str ''2024-03-01T00:00:00.000Z''),
          (''pilot_end_date'', Null),
          (''timeline_preference'', Str ''3_months''),
          (''token_commitment_fee'', Str ''100'')]"
  by (simp add: restored_form_def syncOffline_def loadFromStorage_def eval_submit)

text \<open>
  The claim as stated (with no required field missing a POST is issued) fails: with local
  storage denied the token cannot be read and nothing is sent; and the form restored from
  its offline copy holds its start date as a string, on which \<^verbatim>\<open>toISOString\<close> is not
  defined, so that nothing is sent either.
\<close>

theorem intake_submit_counterexample:
  "missingFields complete_form = []
   \<and> sent (onSubmit (example_world (denied_storage []) (answering created)) complete_form) = []
   \<and> missingFields restored_form = []
   \<and> sent (onSubmit (example_world token_storage (answering created)) restored_form) = []"
  by (simp add: restored_form_value) (simp add: eval_submit)

theorem intake_submit_validates_and_posts_witness:
  "missingFields incomplete_form = [''contact_person'', ''project_type'', ''timeline_preference'']
   \<and> sent (onSubmit (example_world token_storage (answering created)) incomplete_form) = []
   \<and> fst (onSubmit_try (example_world token_storage (answering created)) incomplete_form)
       = Some (Error ''Please fill in all required fields: contact_person, project_type, timeline_preference'')
   \<and> missingFields full_form = []
   \<and> getAuthToken (example_world token_storage (answering created))
       = Inr (Some (RawText ''eyJhbGciOi.eyJ1c2VyIjo.c2lnbmF0dXJl''))
   \<and> iso_date_part (field full_form ''pilot_start_date'') = Inr (Str ''2024-03-01'')
   \<and> iso_date_part (field full_form ''pilot_end_date'') = Inr (Str ''2024-05-31'')
   \<and> sent (onSubmit (example_world token_storage (answering created)) full_form)
       = [\<lparr>req_url = ''http://localhost:4002/api/clients/'',
            req_method = Some ''POST'',
            req_headers = [(''Content-Type'', HStr ''application/json''),
                           (''Authorization'', HBearer (RawText ''eyJhbGciOi.eyJ1c2VyIjo.c2lnbmF0dXJl''))],
            req_body = TextBody (JsonText
              (Obj [(''organization'',
                       Obj [(''name'', Str ''Hilltop School''),
                            (''organization_type'', Str ''educational''),
                            (''email'', Str ''office@hilltop.example'')]),
                    (''school_name'', Str ''Hilltop School''),
                    (''address'', Str ''1 Hill Road''),
                    (''contact_person'', Str ''A. Mensah''),
                    (''role_position'', Str ''Head teacher''),
                    (''phone_whatsapp'', Str ''+233 20 000 0000''),
                    (''email'', Str ''office@hilltop.example''),
                    (''current_website'', Str ''https://hilltop.example''),
                    (''number_of_students'', Num 350),
                    (''number_of_staff'', Num 40),
                    (''project_type'', Arr [Str ''mobile_app'']),
                    (''project_purpose'', Arr [Str ''enhance_communication'']),
                    (''pilot_scope_features'', Arr [Str ''gradebook'', Str ''data_export'']),
                    (''pilot_start_date'', Str ''2024-03-01''),
                    (''pilot_end_date'', Str ''2024-05-31''),
                    (''timeline_preference'', Str ''3_months''),
                    (''design_preferences'', Str ''plain''),
                    (''logo_colors'', Str ''green and gold''),
                    (''content_availability'', Bool True),
                    (''maintenance_plan'', Str ''monthly''),
                    (''token_commitment_fee'', Num 100),
                    (''additional_notes'', Str ''none''),
                    (''acknowledgment'', Bool True)]))\<rparr>]"
proof -
  let ?w = "example_world token_storage (answering created)"
  let ?t = "Some (RawText ''eyJhbGciOi.eyJ1c2VyIjo.c2lnbmF0dXJl'')"
  have m1: "missingFields incomplete_form = [''contact_person'', ''project_type'', ''timeline_preference'']"
    by (simp add: missingFields_def requiredFields_def is_missing_def field_def incomplete_form_def)
  have m2: "missingFields full_form = []"
    by (simp add: missingFields_def requiredFields_def is_missing_def field_def full_form_def)
  have t: "getAuthToken ?w = Inr ?t"
    by (simp add: getAuthToken_def getItem_def example_world_def token_storage_def open_storage_def)
  have d1: "iso_date_part (field full_form ''pilot_start_date'') = Inr (Str ''2024-03-01'')"
    by (simp add: field_def full_form_def)
  have d2: "iso_date_part (field full_form ''pilot_end_date'') = Inr (Str ''2024-05-31'')"
    by (simp add: field_def full_form_def)
  have s0: "sent ?w = []" by (simp add: example_world_def)
  have u: "API_BASE_URL ?w = ''http://localhost:4002/api''" by (simp add: example_world_def)
  have p: "parseInt ?w (Str ''350'') = Num 350" "parseInt ?w (Str ''40'') = Num 40"
       "parseFloat ?w (Str ''100'') = Num 100"
    by (simp_all add: example_world_def)
  have h: "missingFields full_form = [] \<and> getAuthToken ?w = Inr ?t
         \<and> iso_date_part (field full_form ''pilot_start_date'') = Inr (Str ''2024-03-01'')
         \<and> iso_date_part (field full_form ''pilot_end_date'') = Inr (Str ''2024-05-31'')"
    using m2 t d1 d2 by simp
  note thm1 = intake_submit_validates_and_posts [of incomplete_form ?w]
  note thm2 = intake_submit_validates_and_posts [of full_form ?w]
  have A: "sent (onSubmit ?w incomplete_form) = []
      \<and> fst (onSubmit_try ?w incomplete_form)
       = Some (Error ''Please fill in all required fields: contact_person, project_type, timeline_preference'')"
    using thm1 [THEN conjunct2, THEN conjunct1] by (simp add: m1 s0)
  from thm2 [THEN conjunct2, THEN conjunct2, rule_format, OF h, THEN conjunct1]
  have B: "sent (onSubmit ?w full_form)
       = [\<lparr>req_url = ''http://localhost:4002/api/clients/'',
            req_method = Some ''POST'',
            req_headers = [(''Content-Type'', HStr ''application/json''),
                           (''Authorization'', HBearer (RawText ''eyJhbGciOi.eyJ1c2VyIjo.c2lnbmF0dXJl''))],
            req_body = TextBody (JsonText
              (Obj [(''organization'',
                       Obj [(''name'', Str ''Hilltop School''),
                            (''organization_type'', Str ''educational''),
                            (''email'', Str ''office@hilltop.example'')]),
                    (''school_name'', Str ''Hilltop School''),
                    (''address'', Str ''1 Hill Road''),
                    (''contact_person'', Str ''A. Mensah''),
                    (''role_position'', Str ''Head teacher''),
                    (''phone_whatsapp'', Str ''+233 20 000 0000''),
                    (''email'', Str ''office@hilltop.example''),
                    (''current_website'', Str ''https://hilltop.example''),
                    (''number_of_students'', Num 350),
                    (''number_of_staff'', Num 40),
                    (''project_type'', Arr [Str ''mobile_app'']),
                    (''project_purpose'', Arr [Str ''enhance_communication'']),
                    (''pilot_scope_features'', Arr [Str ''gradebook'', Str ''data_export'']),
                    (''pilot_start_date'', Str ''2024-03-01''),
                    (''pilot_end_date'', Str ''2024-05-31''),
                    (''timeline_preference'', Str ''3_months''),
                    (''design_preferences'', Str ''plain''),
                    (''logo_colors'', Str ''green and gold''),
                    (''content_availability'', Bool True),
                    (''maintenance_plan'', Str ''monthly''),
                    (''token_commitment_fee'', Num 100),
                    (''additional_notes'', Str ''none''),
                    (''acknowledgment'', Bool True)]))\<rparr>]"
    by (auto simp: field_def full_form_def p s0 u spread_def auth_headers_def)
  from m1 A m2 t d1 d2 B show ?thesis by (intro conjI) simp_all
qed

text \<open>
  The claim as stated (on failure the data is saved to local storage) fails: on a storage
  whose quota is used up the failed submit leaves nothing under the key, and the message
  is shown all the same.
\<close>

theorem intake_submit_offline_copy_counterexample:
  "fst (onSubmit_try (example_world (full_storage []) offline) complete_form)
     = Some (JSError ''TypeError'' ''Failed to fetch'')
   \<and> map_of (entries (localStorage (onSubmit (example_world (full_storage []) offline) complete_form)))
        ''client_intake_form'' = None
   \<and> alerts (onSubmit (example_world (full_storage []) offline) complete_form)
       = [''Form submission failed: Failed to fetch. Data saved offline for later sync.'']"
  by (simp add: eval_submit)

theorem intake_submit_offline_copy_witness:
  "fst (onSubmit_try (example_world (open_storage []) offline) complete_form)
     = Some (JSError ''TypeError'' ''Failed to fetch'')
   \<and> complete_form \<noteq> Null
   \<and> map_of (entries (localStorage (onSubmit (example_world (open_storage []) offline) complete_form)))
        ''client_intake_form'' = Some (JsonText restored_form)
   \<and> alerts (onSubmit (example_world (open_storage []) offline) complete_form)
       = [''Form submission failed: Failed to fetch. Data saved offline for later sync.'']
   \<and> map_of (entries token_storage) ''client_intake_form'' = Some (JsonText example_data)
   \<and> fst (onSubmit_try (example_world token_storage (answering created)) complete_form) = None
   \<and> map_of (entries (localStorage (onSubmit (example_world token_storage (answering created))
         complete_form))) ''client_intake_form'' = None
   \<and> alerts (onSubmit (example_world token_storage (answering created)) complete_form)
       = [''Intake form submitted successfully!'']"
proof -
  let ?w = "example_world (open_storage []) offline"
  let ?v = "example_world token_storage (answering created)"
  have f: "fst (onSubmit_try ?w complete_form) = Some (JSError ''TypeError'' ''Failed to fetch'')"
    by (simp add: eval_submit)
  have n: "complete_form \<noteq> Null" by (simp add: complete_form_def)
  have q: "\<not> denied (localStorage (snd (onSubmit_try ?w complete_form)))
         \<and> quota_ok (localStorage (snd (onSubmit_try ?w complete_form)))
              (entries (localStorage (snd (onSubmit_try ?w complete_form)))) ''client_intake_form''
              (stored_string (JSON_stringify complete_form))"
    by (simp add: eval_submit)
  have j: "stored_string (JSON_stringify complete_form) = JsonText restored_form"
    by (simp add: restored_form_value) (simp add: eval_submit)
  have a: "alerts ?w = []" "alerts ?v = []" by (simp_all add: example_world_def)
  have g: "fst (onSubmit_try ?v complete_form) = None"
    by (simp add: eval_submit)
  have k: "map_of (entries token_storage) ''client_intake_form'' = Some (JsonText example_data)"
    by (simp add: token_storage_def open_storage_def)
  show ?thesis
    using f n q g k intake_submit_offline_copy [of ?w complete_form]
      intake_submit_offline_copy [of ?v complete_form]
    by (simp add: j a)
qed

section \<open>Properties of the replay of the queue\<close>














lemma storage_ok_frame:
  "storage_ok w \<Longrightarrow> denied (localStorage w') = denied (localStorage w) \<Longrightarrow>
   quota_ok (localStorage w') = quota_ok (localStorage w) \<Longrightarrow> storage_ok w'"
  by (simp add: storage_ok_def)

























end
